theory Spec2Isabelle
  imports Main "HOL-Library.Word" "HOL-Library.AList"
begin

section \<open>The E1.33 device of tools/e133/E133Device.cpp\<close>

text \<open>
  The methods of \<open>E133Device\<close> are embedded as functions on one record, which holds the
  members of the device together with the state of the objects it points to (the select
  server, the endpoint manager, the statistics, the accepted TCP sockets). Every call the
  device makes on a collaborator, and every log line it writes, is also appended to a trace
  in program order, so that "exactly one reply" or "closed before it is deleted" are
  statements about that trace.
\<close>

subsection \<open>Values exchanged with the collaborators\<close>

type_synonym uint16_t = "16 word"
type_synonym uint32_t = "32 word"

text \<open>\<open>ola::network::IPV4Address\<close>: the 32-bit address; a default-constructed one is 0.\<close>

type_synonym IPV4Address = "32 word"

definition IPV4Address_default :: IPV4Address where
  "IPV4Address_default = 0"

text \<open>\<open>ola::plugin::e131::CID\<close>, the component identifier, as its bytes.\<close>

type_synonym CID = "8 word list"

text \<open>
  \<open>TransportHeader\<close> and \<open>E133Header\<close> are declared in plugins/e131/e131, which is not
  among the sources; the records carry the accessors the device calls.
\<close>

datatype TransportType = TCP | UDP | UNDEFINED

record TransportHeader =
  SourceIP :: IPV4Address
  SourcePort :: uint16_t
  Transport :: TransportType

record E133Header =
  Source :: string
  Sequence :: uint32_t
  Endpoint :: uint16_t
  RxAcknowledge :: bool
  Timeout :: bool

text \<open>
  \<open>ola::rdm::rdm_response_code\<close> is declared in ola/rdm/RDMControllerInterface.h, which
  is not among the sources. The device names three of its values; every other
  enumerator is \<open>RDM_OTHER_CODE n\<close>.
\<close>

datatype rdm_response_code =
    RDM_COMPLETED_OK
  | RDM_WAS_BROADCAST
  | RDM_UNKNOWN_UID
  | RDM_OTHER_CODE nat

text \<open>
  A parsed RDM request and an RDM response are opaque to the device: it only passes them
  on. \<open>RDMRequest::InflateFromData\<close> is a parameter of \<open>EndpointRequest\<close> below.
\<close>

datatype RDMRequest = RDMRequest "8 word list"
datatype RDMResponse = RDMResponse "8 word list"

text \<open>\<open>RDMPDU pdu(response_ptr)\<close>: the PDU wraps the response pointer, which may be null.\<close>

datatype RDMPDU = RDMPDU "RDMResponse option"

text \<open>
  The only outgoing transport the device builds is
  \<open>OutgoingUDPTransport(&m_outgoing_udp_transport, ip, port)\<close>.
\<close>

datatype OutgoingTransport = OutgoingUDPTransport IPV4Address uint16_t

subsection \<open>Callbacks\<close>

text \<open>
  A callback made by \<open>NewCallback(this, &E133Device::f, args)\<close> is the name of the bound
  method with its bound arguments; one datatype per callback type of the source.
\<close>

datatype OnAcceptCallback = NewTCPConnection_callback
datatype OnCloseCallback = TCPConnectionClosed_callback
datatype UnhealthyCallback = TCPConnectionUnhealthy_callback
datatype OnDataCallback = IncomingUDPTransport_Receive | IncomingTCPTransport_Receive
datatype E133DataCallback = E133DataReceived_callback
datatype RDMMessageHandler = EndpointRequest_callback uint16_t
datatype RDMCallback = EndpointRequestComplete_callback IPV4Address uint16_t uint32_t uint16_t
datatype EndpointNoticationCallback = RegisterEndpoint_callback | UnRegisterEndpoint_callback

subsection \<open>Collaborator objects\<close>

text \<open>
  \<open>TCPConnectionStats\<close> is declared in tools/e133/TCPConnectionStats.h, which is not among
  the sources: the peer address and the two event counters, taken as 16-bit counters
  (\<open>++\<close> wraps). No statement below depends on the width.
\<close>

record TCPConnectionStats =
  ip_address :: IPV4Address
  connection_events :: uint16_t
  unhealthy_events :: uint16_t

text \<open>
  An accepted \<open>ola::network::TcpSocket\<close>, an object on the heap: what \<open>GetPeer\<close> reports
  (None when it fails), whether the socket is open, and the two callbacks installed on it.
\<close>

record TcpSocket =
  peer :: "(IPV4Address \<times> uint16_t) option"
  is_open :: bool
  on_close :: "OnCloseCallback option"
  on_data :: "OnDataCallback option"

text \<open>The listening socket \<open>m_tcp_socket\<close> and the UDP socket \<open>m_udp_socket\<close>.\<close>

record TcpAcceptingSocket =
  listening :: bool
  on_accept :: "OnAcceptCallback option"

record UdpSocket =
  udp_open :: bool
  udp_bound :: "uint16_t option"
  udp_on_data :: "OnDataCallback option"

text \<open>The descriptors the select server can hold; an accepted socket by its address.\<close>

datatype descriptor = UdpSocket_descriptor | TcpAcceptingSocket_descriptor | TcpSocket_descriptor nat

record SelectServer =
  read_descriptors :: "descriptor set"

text \<open>
  \<open>E133HealthCheckedConnection(sender, on_unhealthy, descriptor, ss, interval)\<close>: the
  arguments it was built with. Its timer is not part of the device.
\<close>

record E133HealthCheckedConnection =
  hc_on_unhealthy :: UnhealthyCallback
  hc_descriptor :: nat
  hc_interval :: "nat \<times> nat"

text \<open>\<open>IncomingTCPTransport(&m_root_inflator, descriptor)\<close>.\<close>

record IncomingTCPTransport =
  tcp_transport_descriptor :: nat

text \<open>
  \<open>RDMInflator\<close>: the callback run on every E1.33 message and the handler of each endpoint
  id (\<open>m_rdm_handlers\<close>).
\<close>

record RDMInflator =
  m_on_data :: E133DataCallback
  m_rdm_handlers :: "uint16_t \<rightharpoonup> RDMMessageHandler"

datatype inflator = The_E133Inflator | The_RDMInflator

text \<open>
  \<open>EndpointManager\<close> (tools/e133/EndpointManager.h, not among the sources): the endpoints
  by id, an endpoint being the address of an \<open>E133EndpointInterface\<close>, and the subscribed
  notifications in the order they were registered.
\<close>

datatype EndpointNoticationEvent = ADD | REMOVE

record EndpointManager =
  m_endpoint_map :: "(uint16_t \<times> nat) list"
  m_callbacks :: "(EndpointNoticationEvent \<times> EndpointNoticationCallback) list"

subsection \<open>The trace\<close>

datatype log_level = OLA_INFO | OLA_WARN

text \<open>One operand of a \<open><<\<close> chain.\<close>

datatype log_item =
    Str string
  | U16 uint16_t
  | Addr IPV4Address
  | ResponseCodeToString rdm_response_code

datatype action =
    Log log_level "log_item list"
  | TcpAcceptingSocket_SetOnAccept_call OnAcceptCallback
  | TcpAcceptingSocket_Listen_call IPV4Address uint16_t bool
  | TcpAcceptingSocket_Close_call
  | UdpSocket_Init_call bool
  | UdpSocket_Bind_call uint16_t bool
  | UdpSocket_SetOnData_call OnDataCallback
  | AddReadDescriptor_call descriptor
  | RemoveReadDescriptor_call descriptor
  | TcpSocket_GetPeer_call nat
  | TcpSocket_SetOnClose_call nat OnCloseCallback
  | TcpSocket_SetOnData_call nat OnDataCallback
  | TcpSocket_TransferOnClose_call nat
  | TcpSocket_Close_call nat
  | TcpSocket_delete_call nat
  | HealthCheckedConnection_Setup_call bool
  | HealthCheckedConnection_SendHeartbeat_call
  | HealthCheckedConnection_HeartbeatReceived_call
  | SetRDMHandler_call uint16_t RDMMessageHandler
  | RemoveRDMHandler_call uint16_t
  | AddInflator_call inflator
  | RegisterNotification_call EndpointNoticationEvent EndpointNoticationCallback
  | UnRegisterNotification_call EndpointNoticationCallback
  | EndpointIDs_call
  | GetEndpoint_call uint16_t
  | SendRDMRequest_call nat RDMRequest RDMCallback
  | SendRDM_call E133Header RDMPDU OutgoingTransport bool

subsection \<open>The device\<close>

datatype fault = NullPointerDereference

record E133Device =
  m_endpoint_manager :: EndpointManager
  m_register_endpoint_callback :: "EndpointNoticationCallback option"
  m_unregister_endpoint_callback :: "EndpointNoticationCallback option"
  m_root_endpoint :: "nat option"
  m_tcp_stats :: "TCPConnectionStats option"
  m_cid :: CID
  m_health_check_interval :: "nat \<times> nat"
  m_tcp_descriptor :: "nat option"
  m_health_checked_connection :: "E133HealthCheckedConnection option"
  m_ss :: SelectServer
  m_ip_address :: IPV4Address
  m_tcp_socket :: TcpAcceptingSocket
  m_udp_socket :: UdpSocket
  m_root_inflator :: "inflator list"
  m_e133_inflator :: "inflator list"
  m_rdm_inflator :: RDMInflator
  m_incoming_tcp_transport :: "IncomingTCPTransport option"
  tcp_sockets :: "nat \<rightharpoonup> TcpSocket"
  io_trace :: "action list"

definition record_call :: "action \<Rightarrow> E133Device \<Rightarrow> E133Device" where
  "record_call a s = s\<lparr>io_trace := io_trace s @ [a]\<rparr>"

definition OLA_LOG :: "log_level \<Rightarrow> log_item list \<Rightarrow> E133Device \<Rightarrow> E133Device" where
  "OLA_LOG level items s = record_call (Log level items) s"

subsection \<open>The collaborators' methods\<close>

text \<open>
  Modelled from the spec: the I/O readiness set of the external scheduler
  (\<open>SelectServerInterface\<close>), to which the core registers descriptors.
\<close>

definition AddReadDescriptor :: "descriptor \<Rightarrow> E133Device \<Rightarrow> E133Device" where
  "AddReadDescriptor d s =
     record_call (AddReadDescriptor_call d)
       (s\<lparr>m_ss := (m_ss s)\<lparr>read_descriptors := insert d (read_descriptors (m_ss s))\<rparr>\<rparr>)"

text \<open>
  Modelled from the spec: the I/O readiness set of the external scheduler, from which the
  core deregisters descriptors.
\<close>

definition RemoveReadDescriptor :: "descriptor \<Rightarrow> E133Device \<Rightarrow> E133Device" where
  "RemoveReadDescriptor d s =
     record_call (RemoveReadDescriptor_call d)
       (s\<lparr>m_ss := (m_ss s)\<lparr>read_descriptors := read_descriptors (m_ss s) - {d}\<rparr>\<rparr>)"

text \<open>Modelled from the spec: the TCP listening primitive, \<open>on_accept\<close>.\<close>

definition TcpAcceptingSocket_SetOnAccept :: "OnAcceptCallback \<Rightarrow> E133Device \<Rightarrow> E133Device" where
  "TcpAcceptingSocket_SetOnAccept cb s =
     record_call (TcpAcceptingSocket_SetOnAccept_call cb)
       (s\<lparr>m_tcp_socket := (m_tcp_socket s)\<lparr>on_accept := Some cb\<rparr>\<rparr>)"

text \<open>
  Modelled from the spec: the TCP listening primitive, \<open>listen(address, port)\<close>. Whether
  it succeeds is decided outside the device (\<open>ok\<close>); the socket listens once it has.
\<close>

definition TcpAcceptingSocket_Listen ::
    "IPV4Address \<Rightarrow> uint16_t \<Rightarrow> bool \<Rightarrow> E133Device \<Rightarrow> E133Device" where
  "TcpAcceptingSocket_Listen address port ok s =
     record_call (TcpAcceptingSocket_Listen_call address port ok)
       (s\<lparr>m_tcp_socket := (m_tcp_socket s)\<lparr>listening := (listening (m_tcp_socket s) \<or> ok)\<rparr>\<rparr>)"

text \<open>Modelled from the spec: the TCP listening primitive, \<open>close\<close>.\<close>

definition TcpAcceptingSocket_Close :: "E133Device \<Rightarrow> E133Device" where
  "TcpAcceptingSocket_Close s =
     record_call TcpAcceptingSocket_Close_call
       (s\<lparr>m_tcp_socket := (m_tcp_socket s)\<lparr>listening := False\<rparr>\<rparr>)"

text \<open>
  Modelled from the spec: the UDP primitive is opened by \<open>Init\<close> ("opens the TCP listening
  socket and UDP socket"); whether that succeeds is decided outside the device.
\<close>

definition UdpSocket_Init :: "bool \<Rightarrow> E133Device \<Rightarrow> E133Device" where
  "UdpSocket_Init ok s =
     record_call (UdpSocket_Init_call ok)
       (s\<lparr>m_udp_socket := (m_udp_socket s)\<lparr>udp_open := (udp_open (m_udp_socket s) \<or> ok)\<rparr>\<rparr>)"

text \<open>
  Modelled from the spec: the UDP primitive, \<open>bind(port)\<close>. A bind that fails reports the
  failure and does nothing else: the socket stays as \<open>Init\<close> left it.
\<close>

definition UdpSocket_Bind :: "uint16_t \<Rightarrow> bool \<Rightarrow> E133Device \<Rightarrow> E133Device" where
  "UdpSocket_Bind port ok s =
     record_call (UdpSocket_Bind_call port ok)
       (if ok then s\<lparr>m_udp_socket := (m_udp_socket s)\<lparr>udp_bound := Some port\<rparr>\<rparr> else s)"

text \<open>Modelled from the spec: the UDP primitive, \<open>on_data\<close>.\<close>

definition UdpSocket_SetOnData :: "OnDataCallback \<Rightarrow> E133Device \<Rightarrow> E133Device" where
  "UdpSocket_SetOnData cb s =
     record_call (UdpSocket_SetOnData_call cb)
       (s\<lparr>m_udp_socket := (m_udp_socket s)\<lparr>udp_on_data := Some cb\<rparr>\<rparr>)"

text \<open>An update of the accepted socket at address \<open>d\<close>.\<close>

definition update_TcpSocket :: "nat \<Rightarrow> (TcpSocket \<Rightarrow> TcpSocket) \<Rightarrow> E133Device \<Rightarrow> E133Device" where
  "update_TcpSocket d f s = s\<lparr>tcp_sockets := (tcp_sockets s)(d := map_option f (tcp_sockets s d))\<rparr>"

text \<open>Modelled from the spec: the TCP connection primitive, \<open>get_peer\<close>.\<close>

definition TcpSocket_GetPeer ::
    "nat \<Rightarrow> E133Device \<Rightarrow> (IPV4Address \<times> uint16_t) option \<times> E133Device" where
  "TcpSocket_GetPeer d s =
     (Option.bind (tcp_sockets s d) peer, record_call (TcpSocket_GetPeer_call d) s)"

text \<open>Modelled from the spec: the TCP connection primitive, \<open>on_close\<close>.\<close>

definition TcpSocket_SetOnClose :: "nat \<Rightarrow> OnCloseCallback \<Rightarrow> E133Device \<Rightarrow> E133Device" where
  "TcpSocket_SetOnClose d cb s =
     record_call (TcpSocket_SetOnClose_call d cb) (update_TcpSocket d (\<lambda>t. t\<lparr>on_close := Some cb\<rparr>) s)"

text \<open>Modelled from the spec: the TCP connection primitive, \<open>on_data\<close>.\<close>

definition TcpSocket_SetOnData :: "nat \<Rightarrow> OnDataCallback \<Rightarrow> E133Device \<Rightarrow> E133Device" where
  "TcpSocket_SetOnData d cb s =
     record_call (TcpSocket_SetOnData_call d cb) (update_TcpSocket d (\<lambda>t. t\<lparr>on_data := Some cb\<rparr>) s)"

text \<open>
  Modelled from the spec: the TCP connection primitive hands its close-notification over
  to the caller (\<open>TransferOnClose\<close>): the caller gets the installed callback, null when
  none is installed, and the socket keeps none.
\<close>

definition TcpSocket_TransferOnClose ::
    "nat \<Rightarrow> E133Device \<Rightarrow> OnCloseCallback option \<times> E133Device" where
  "TcpSocket_TransferOnClose d s =
     (Option.bind (tcp_sockets s d) on_close,
      record_call (TcpSocket_TransferOnClose_call d) (update_TcpSocket d (\<lambda>t. t\<lparr>on_close := None\<rparr>) s))"

text \<open>
  Modelled from the spec: the TCP connection primitive, \<open>close\<close>. Closing does not run the
  close-notification ("the close was monitor-initiated rather than peer-initiated").
\<close>

definition TcpSocket_Close :: "nat \<Rightarrow> E133Device \<Rightarrow> E133Device" where
  "TcpSocket_Close d s =
     record_call (TcpSocket_Close_call d) (update_TcpSocket d (\<lambda>t. t\<lparr>is_open := False\<rparr>) s)"

text \<open>\<open>delete descriptor\<close>: the object at \<open>d\<close> is gone.\<close>

definition delete_TcpSocket :: "nat \<Rightarrow> E133Device \<Rightarrow> E133Device" where
  "delete_TcpSocket d s =
     record_call (TcpSocket_delete_call d) (s\<lparr>tcp_sockets := (tcp_sockets s)(d := None)\<rparr>)"

text \<open>
  Modelled from the spec: the Connection Health Monitor (\<open>E133HealthCheckedConnection\<close>,
  not among the sources). Whether its setup succeeds is decided outside the device.
\<close>

definition HealthCheckedConnection_Setup :: "bool \<Rightarrow> E133Device \<Rightarrow> E133Device" where
  "HealthCheckedConnection_Setup ok s = record_call (HealthCheckedConnection_Setup_call ok) s"

text \<open>Modelled from the spec: the Connection Health Monitor sends one heartbeat.\<close>

definition HealthCheckedConnection_SendHeartbeat :: "E133Device \<Rightarrow> E133Device" where
  "HealthCheckedConnection_SendHeartbeat s = record_call HealthCheckedConnection_SendHeartbeat_call s"

text \<open>
  Modelled from the spec: the Connection Health Monitor is told of a received heartbeat,
  which resets its timeout.
\<close>

definition HealthCheckedConnection_HeartbeatReceived :: "E133Device \<Rightarrow> E133Device" where
  "HealthCheckedConnection_HeartbeatReceived s =
     record_call HealthCheckedConnection_HeartbeatReceived_call s"

text \<open>
  Modelled from the spec: the RDM layer of the decode pipeline (\<open>RDMInflator\<close>, not among
  the sources) installs the handler bound to an endpoint id.
\<close>

definition SetRDMHandler :: "uint16_t \<Rightarrow> RDMMessageHandler \<Rightarrow> E133Device \<Rightarrow> E133Device" where
  "SetRDMHandler endpoint handler s =
     record_call (SetRDMHandler_call endpoint handler)
       (s\<lparr>m_rdm_inflator := (m_rdm_inflator s)
            \<lparr>m_rdm_handlers := (m_rdm_handlers (m_rdm_inflator s))(endpoint \<mapsto> handler)\<rparr>\<rparr>)"

text \<open>
  Modelled from the spec: the RDM layer of the decode pipeline removes the handler of an
  endpoint id.
\<close>

definition RemoveRDMHandler :: "uint16_t \<Rightarrow> E133Device \<Rightarrow> E133Device" where
  "RemoveRDMHandler endpoint s =
     record_call (RemoveRDMHandler_call endpoint)
       (s\<lparr>m_rdm_inflator := (m_rdm_inflator s)
            \<lparr>m_rdm_handlers := (m_rdm_handlers (m_rdm_inflator s))(endpoint := None)\<rparr>\<rparr>)"

text \<open>Modelled from the spec: the Endpoint Registry, \<open>subscribe(observer)\<close>.\<close>

definition RegisterNotification ::
    "EndpointNoticationEvent \<Rightarrow> EndpointNoticationCallback \<Rightarrow> E133Device \<Rightarrow> E133Device" where
  "RegisterNotification event cb s =
     record_call (RegisterNotification_call event cb)
       (s\<lparr>m_endpoint_manager := (m_endpoint_manager s)
            \<lparr>m_callbacks := m_callbacks (m_endpoint_manager s) @ [(event, cb)]\<rparr>\<rparr>)"

text \<open>Modelled from the spec: the Endpoint Registry, \<open>unsubscribe(observer)\<close>.\<close>

definition UnRegisterNotification :: "EndpointNoticationCallback \<Rightarrow> E133Device \<Rightarrow> E133Device" where
  "UnRegisterNotification cb s =
     record_call (UnRegisterNotification_call cb)
       (s\<lparr>m_endpoint_manager := (m_endpoint_manager s)
            \<lparr>m_callbacks := filter (\<lambda>(event, c). c \<noteq> cb) (m_callbacks (m_endpoint_manager s))\<rparr>\<rparr>)"

text \<open>Modelled from the spec: the Endpoint Registry, \<open>all_ids() -> sequence of id\<close>.\<close>

definition EndpointIDs :: "E133Device \<Rightarrow> uint16_t list \<times> E133Device" where
  "EndpointIDs s = (map fst (m_endpoint_map (m_endpoint_manager s)), record_call EndpointIDs_call s)"

text \<open>Modelled from the spec: the Endpoint Registry, \<open>lookup(id) -> Option<handler>\<close>.\<close>

definition GetEndpoint :: "uint16_t \<Rightarrow> E133Device \<Rightarrow> nat option \<times> E133Device" where
  "GetEndpoint endpoint_id s =
     (map_of (m_endpoint_map (m_endpoint_manager s)) endpoint_id,
      record_call (GetEndpoint_call endpoint_id) s)"

text \<open>
  Modelled from the spec: the endpoint boundary,
  \<open>send_rdm_request(request, on_complete)\<close>. The endpoint answers later, by running
  \<open>on_complete\<close>.
\<close>

definition SendRDMRequest :: "nat \<Rightarrow> RDMRequest \<Rightarrow> RDMCallback \<Rightarrow> E133Device \<Rightarrow> E133Device" where
  "SendRDMRequest endpoint request on_complete s =
     record_call (SendRDMRequest_call endpoint request on_complete) s"

text \<open>
  Modelled from the spec: the E1.33 wire-format encoder (\<open>E133Sender::SendRDM\<close>, not
  among the sources) sends one packet on the transport it is given; whether the packet
  went out is decided outside the device.
\<close>

definition SendRDM :: "E133Header \<Rightarrow> RDMPDU \<Rightarrow> OutgoingTransport \<Rightarrow> bool \<Rightarrow> E133Device \<Rightarrow> E133Device" where
  "SendRDM header pdu transport ok s = record_call (SendRDM_call header pdu transport ok) s"

subsection \<open>The methods of the device\<close>

text \<open>
  The constructor. \<open>CID::Generate()\<close> is random: the identifier is a parameter. The
  select server, the endpoint manager and the statistics (a pointer that may be null) are
  the objects the device is given; no TCP socket has been accepted yet.
\<close>

definition E133Device_new ::
    "SelectServer \<Rightarrow> IPV4Address \<Rightarrow> EndpointManager \<Rightarrow> TCPConnectionStats option \<Rightarrow> CID \<Rightarrow> E133Device" where
  "E133Device_new ss address endpoint_manager tcp_stats cid =
     (let s0 = \<lparr>m_endpoint_manager = endpoint_manager,
                m_register_endpoint_callback = None,
                m_unregister_endpoint_callback = None,
                m_root_endpoint = None,
                m_tcp_stats = tcp_stats,
                m_cid = cid,
                m_health_check_interval = (2, 0),
                m_tcp_descriptor = None,
                m_health_checked_connection = None,
                m_ss = ss,
                m_ip_address = address,
                m_tcp_socket = \<lparr>listening = False, on_accept = None\<rparr>,
                m_udp_socket = \<lparr>udp_open = False, udp_bound = None, udp_on_data = None\<rparr>,
                m_root_inflator = [],
                m_e133_inflator = [],
                m_rdm_inflator = \<lparr>m_on_data = E133DataReceived_callback, m_rdm_handlers = Map.empty\<rparr>,
                m_incoming_tcp_transport = None,
                tcp_sockets = Map.empty,
                io_trace = []\<rparr>;
          s1 = record_call (AddInflator_call The_E133Inflator)
                 (s0\<lparr>m_root_inflator := m_root_inflator s0 @ [The_E133Inflator]\<rparr>);
          s2 = record_call (AddInflator_call The_RDMInflator)
                 (s1\<lparr>m_e133_inflator := m_e133_inflator s1 @ [The_RDMInflator]\<rparr>);
          s3 = s2\<lparr>m_register_endpoint_callback := Some RegisterEndpoint_callback\<rparr>;
          s4 = s3\<lparr>m_unregister_endpoint_callback := Some UnRegisterEndpoint_callback\<rparr>;
          s5 = RegisterNotification ADD RegisterEndpoint_callback s4
      in RegisterNotification REMOVE UnRegisterEndpoint_callback s5)"

text \<open>The destructor; the loop over the ids still registered is a fold.\<close>

definition E133Device_delete :: "E133Device \<Rightarrow> E133Device" where
  "E133Device_delete s0 =
     (let (endpoints, s1) = EndpointIDs s0;
          s2 = (if endpoints \<noteq> []
                then fold RemoveRDMHandler endpoints
                       (OLA_LOG OLA_WARN [Str ''Some endpoints weren't removed correctly''] s1)
                else s1);
          s3 = (case m_register_endpoint_callback s2 of
                  Some cb \<Rightarrow> UnRegisterNotification cb s2 | None \<Rightarrow> s2)
      in case m_unregister_endpoint_callback s3 of
           Some cb \<Rightarrow> UnRegisterNotification cb s3 | None \<Rightarrow> s3)"

definition SetRootEndpoint :: "nat option \<Rightarrow> E133Device \<Rightarrow> E133Device" where
  "SetRootEndpoint endpoint s =
     SetRDMHandler 0 (EndpointRequest_callback 0) (s\<lparr>m_root_endpoint := endpoint\<rparr>)"

text \<open>
  \<open>Init\<close>. \<open>E133_PORT\<close> is declared in plugins/e131/e131/E131Includes.h, which is not
  among the sources: it is a parameter, and so is what \<open>Listen\<close>, the UDP socket's
  \<open>Init\<close> and its \<open>Bind\<close> return.
\<close>

definition Init :: "uint16_t \<Rightarrow> bool \<Rightarrow> bool \<Rightarrow> bool \<Rightarrow> E133Device \<Rightarrow> bool \<times> E133Device" where
  "Init E133_PORT listen_ok udp_init_ok udp_bind_ok s0 =
     (let s1 = OLA_LOG OLA_INFO [Str ''Attempting to start E1.33 device at '', Addr (m_ip_address s0)] s0;
          s2 = TcpAcceptingSocket_SetOnAccept NewTCPConnection_callback s1;
          s3 = TcpAcceptingSocket_Listen (m_ip_address s2) E133_PORT listen_ok s2
      in if \<not> listen_ok then (False, TcpAcceptingSocket_Close s3)
         else
           let s4 = UdpSocket_Init udp_init_ok s3
           in if \<not> udp_init_ok then (False, TcpAcceptingSocket_Close s4)
              else
                let s5 = UdpSocket_Bind E133_PORT udp_bind_ok s4
                in if \<not> udp_bind_ok then (False, TcpAcceptingSocket_Close s5)
                   else
                     let s6 = UdpSocket_SetOnData IncomingUDPTransport_Receive s5;
                         s7 = AddReadDescriptor UdpSocket_descriptor s6
                     in (True, AddReadDescriptor TcpAcceptingSocket_descriptor s7))"

text \<open>
  \<open>NewTCPConnection\<close>. What \<open>m_health_checked_connection->Setup()\<close> returns is the
  parameter \<open>setup_ok\<close>. The local \<open>ip_address\<close> stays default-constructed when
  \<open>GetPeer\<close> fails.
\<close>

definition NewTCPConnection :: "bool \<Rightarrow> nat \<Rightarrow> E133Device \<Rightarrow> E133Device" where
  "NewTCPConnection setup_ok descriptor s0 =
     (let (got_peer, s1) = TcpSocket_GetPeer descriptor s0;
          peer_address = (case got_peer of Some (a, p) \<Rightarrow> a | None \<Rightarrow> IPV4Address_default);
          s2 = (case got_peer of
                  Some (a, p) \<Rightarrow>
                    OLA_LOG OLA_INFO [Str ''New TCP connection from '', Addr a, Str '':'', U16 p] s1
                | None \<Rightarrow>
                    OLA_LOG OLA_WARN [Str ''New TCP connection but failed to determine peer address''] s1)
      in if m_health_checked_connection s2 \<noteq> None then
           delete_TcpSocket descriptor
             (TcpSocket_Close descriptor
               (OLA_LOG OLA_WARN [Str ''Already got a TCP connection open, closing this one''] s2))
         else
           let s3 = (case m_tcp_stats s2 of
                       Some st \<Rightarrow>
                         s2\<lparr>m_tcp_stats :=
                              Some (st\<lparr>connection_events := connection_events st + 1,
                                       ip_address := peer_address\<rparr>)\<rparr>
                     | None \<Rightarrow> s2);
               s4 = TcpSocket_SetOnClose descriptor TCPConnectionClosed_callback s3;
               s5 = s4\<lparr>m_health_checked_connection :=
                         Some \<lparr>hc_on_unhealthy = TCPConnectionUnhealthy_callback,
                               hc_descriptor = descriptor,
                               hc_interval = m_health_check_interval s4\<rparr>\<rparr>;
               s6 = HealthCheckedConnection_Setup setup_ok s5
           in if \<not> setup_ok then
                delete_TcpSocket descriptor
                  (TcpSocket_Close descriptor
                    ((OLA_LOG OLA_WARN
                        [Str ''Failed to setup HealthCheckedConnection, closing TCP connection''] s6)
                       \<lparr>m_health_checked_connection := None\<rparr>))
              else
                let s7 = s6\<lparr>m_incoming_tcp_transport :=
                              Some \<lparr>tcp_transport_descriptor = descriptor\<rparr>\<rparr>;
                    s8 = HealthCheckedConnection_SendHeartbeat s7;
                    s9 = s8\<lparr>m_tcp_descriptor := Some descriptor\<rparr>;
                    s10 = TcpSocket_SetOnData descriptor IncomingTCPTransport_Receive s9
                in AddReadDescriptor (TcpSocket_descriptor descriptor) s10)"

text \<open>
  \<open>TCPConnectionClosed\<close>. \<open>m_tcp_stats->ip_address = IPV4Address()\<close> is written through
  the pointer with no check: a null \<open>m_tcp_stats\<close> is a fault. \<open>delete\<close> of the monitor
  and of the transport empties the member; \<open>delete\<close> of a null descriptor does nothing.
\<close>

definition TCPConnectionClosed :: "E133Device \<Rightarrow> fault + E133Device" where
  "TCPConnectionClosed s0 =
     (let s1 = OLA_LOG OLA_INFO [Str ''TCP conection closed''] s0
      in case m_tcp_stats s1 of
           None \<Rightarrow> Inl NullPointerDereference
         | Some st \<Rightarrow>
             let s2 = s1\<lparr>m_tcp_stats := Some (st\<lparr>ip_address := IPV4Address_default\<rparr>)\<rparr>;
                 s3 = s2\<lparr>m_health_checked_connection := None\<rparr>;
                 s4 = s3\<lparr>m_incoming_tcp_transport := None\<rparr>;
                 s5 = (case m_tcp_descriptor s4 of
                         Some d \<Rightarrow> delete_TcpSocket d s4 | None \<Rightarrow> s4)
             in Inr (s5\<lparr>m_tcp_descriptor := None\<rparr>))"

text \<open>\<open>callback->Run()\<close> on a close-notification.\<close>

definition Run_OnCloseCallback :: "OnCloseCallback \<Rightarrow> E133Device \<Rightarrow> fault + E133Device" where
  "Run_OnCloseCallback cb s = (case cb of TCPConnectionClosed_callback \<Rightarrow> TCPConnectionClosed s)"

text \<open>
  \<open>TCPConnectionUnhealthy\<close>. \<open>m_tcp_descriptor\<close> and the callback that \<open>TransferOnClose\<close>
  returns are used with no check: a null one is a fault.
\<close>

definition TCPConnectionUnhealthy :: "E133Device \<Rightarrow> fault + E133Device" where
  "TCPConnectionUnhealthy s0 =
     (let s1 = OLA_LOG OLA_INFO [Str ''TCP connection went unhealthy, closing''] s0;
          s2 = (case m_tcp_stats s1 of
                  Some st \<Rightarrow> s1\<lparr>m_tcp_stats := Some (st\<lparr>unhealthy_events := unhealthy_events st + 1\<rparr>)\<rparr>
                | None \<Rightarrow> s1)
      in case m_tcp_descriptor s2 of
           None \<Rightarrow> Inl NullPointerDereference
         | Some d \<Rightarrow>
             let s3 = RemoveReadDescriptor (TcpSocket_descriptor d) s2;
                 s4 = TcpSocket_Close d s3;
                 (callback, s5) = TcpSocket_TransferOnClose d s4
             in (case callback of
                   None \<Rightarrow> Inl NullPointerDereference
                 | Some cb \<Rightarrow> Run_OnCloseCallback cb s5))"

definition E133DataReceived :: "TransportHeader \<Rightarrow> E133Device \<Rightarrow> E133Device" where
  "E133DataReceived header s0 =
     (let s1 = OLA_LOG OLA_INFO [Str ''got some E1.33 data from '', Addr (SourceIP header)] s0
      in if Transport header = TCP \<and> m_health_checked_connection s1 \<noteq> None
         then HealthCheckedConnection_HeartbeatReceived s1
         else s1)"

definition RegisterEndpoint :: "uint16_t \<Rightarrow> E133Device \<Rightarrow> E133Device" where
  "RegisterEndpoint endpoint_id s0 =
     (let s1 = OLA_LOG OLA_INFO [Str ''Endpoint '', U16 endpoint_id, Str '' has been added''] s0
      in SetRDMHandler endpoint_id (EndpointRequest_callback endpoint_id) s1)"

definition UnRegisterEndpoint :: "uint16_t \<Rightarrow> E133Device \<Rightarrow> E133Device" where
  "UnRegisterEndpoint endpoint_id s0 =
     (let s1 = OLA_LOG OLA_INFO [Str ''Endpoint '', U16 endpoint_id, Str '' has been removed''] s0
      in RemoveRDMHandler endpoint_id s1)"

text \<open>
  \<open>EndpointRequest\<close>. \<open>RDMRequest::InflateFromData\<close> (ola/rdm, not among the sources) is
  the parameter \<open>InflateFromData\<close>: None is its null result.
\<close>

definition EndpointRequest ::
    "(string \<Rightarrow> RDMRequest option) \<Rightarrow> uint16_t \<Rightarrow> TransportHeader \<Rightarrow> E133Header \<Rightarrow> string
       \<Rightarrow> E133Device \<Rightarrow> E133Device" where
  "EndpointRequest InflateFromData endpoint_id transport_header e133_header raw_request s0 =
     (let s1 = OLA_LOG OLA_INFO [Str ''Got request for to endpoint '', U16 endpoint_id,
                                 Str '' from '', Addr (SourceIP transport_header)] s0;
          (endpoint, s2) = (if endpoint_id \<noteq> 0 then GetEndpoint endpoint_id s1
                            else (m_root_endpoint s1, s1))
      in case endpoint of
           None \<Rightarrow>
             OLA_LOG OLA_INFO [Str ''Request to endpoint '', U16 endpoint_id,
                               Str '' but no Endpoint has been registered, this is a bug!''] s2
         | Some e \<Rightarrow>
             (case InflateFromData raw_request of
                None \<Rightarrow>
                  OLA_LOG OLA_WARN [Str ''Failed to unpack E1.33 RDM message, ignoring request.''] s2
              | Some request \<Rightarrow>
                  SendRDMRequest e request
                    (EndpointRequestComplete_callback (SourceIP transport_header)
                       (SourcePort transport_header) (Sequence e133_header) endpoint_id) s2))"

text \<open>
  \<open>EndpointRequestComplete\<close>. What \<open>m_e133_sender.SendRDM\<close> returns is the parameter
  \<open>send_ok\<close>; the last argument of the source, the raw packets, is unnamed and unused.
  The \<open>auto_ptr\<close> that frees the response on return has no effect on the device.
\<close>

definition EndpointRequestComplete ::
    "bool \<Rightarrow> IPV4Address \<Rightarrow> uint16_t \<Rightarrow> uint32_t \<Rightarrow> uint16_t \<Rightarrow> rdm_response_code
       \<Rightarrow> RDMResponse option \<Rightarrow> string list \<Rightarrow> E133Device \<Rightarrow> E133Device" where
  "EndpointRequestComplete send_ok src_ip src_port sequence_number endpoint_id response_code
       response_ptr packets s0 =
     (if response_code \<noteq> RDM_COMPLETED_OK then
        (if response_code \<noteq> RDM_WAS_BROADCAST
         then OLA_LOG OLA_WARN [Str ''E1.33 request failed with code '',
                                ResponseCodeToString response_code,
                                Str '', dropping request''] s0
         else s0)
      else
        let pdu = RDMPDU response_ptr;
            header = \<lparr>Source = ''foo bar'', Sequence = sequence_number, Endpoint = endpoint_id,
                      RxAcknowledge = False, Timeout = False\<rparr>;
            transport = OutgoingUDPTransport src_ip src_port;
            s1 = SendRDM header pdu transport send_ok s0
        in if \<not> send_ok then OLA_LOG OLA_WARN [Str ''Failed to send E1.33 response''] s1 else s1)"

text \<open>Running the completion that \<open>EndpointRequest\<close> handed to the endpoint.\<close>

definition Run_RDMCallback ::
    "RDMCallback \<Rightarrow> bool \<Rightarrow> rdm_response_code \<Rightarrow> RDMResponse option \<Rightarrow> string list
       \<Rightarrow> E133Device \<Rightarrow> E133Device" where
  "Run_RDMCallback cb send_ok response_code response_ptr packets s =
     (case cb of
        EndpointRequestComplete_callback src_ip src_port sequence_number endpoint_id \<Rightarrow>
          EndpointRequestComplete send_ok src_ip src_port sequence_number endpoint_id
            response_code response_ptr packets s)"

subsection \<open>The Endpoint Registry seen from outside\<close>

text \<open>Running a notification of the registry on the device that subscribed it.\<close>

definition Run_EndpointNoticationCallback ::
    "EndpointNoticationCallback \<Rightarrow> uint16_t \<Rightarrow> E133Device \<Rightarrow> E133Device" where
  "Run_EndpointNoticationCallback cb endpoint_id s =
     (case cb of
        RegisterEndpoint_callback \<Rightarrow> RegisterEndpoint endpoint_id s
      | UnRegisterEndpoint_callback \<Rightarrow> UnRegisterEndpoint endpoint_id s)"

text \<open>
  Modelled from the spec: the Endpoint Registry invokes its subscribed observers
  synchronously, in insertion order, with the event kind and the endpoint id.
\<close>

definition RunNotifications :: "uint16_t \<Rightarrow> EndpointNoticationEvent \<Rightarrow> E133Device \<Rightarrow> E133Device" where
  "RunNotifications endpoint_id event s =
     fold (\<lambda>(ev, cb) s'. if ev = event then Run_EndpointNoticationCallback cb endpoint_id s' else s')
       (m_callbacks (m_endpoint_manager s)) s"

text \<open>
  Modelled from the spec: the Endpoint Registry, \<open>register(id, handler)\<close>
  (\<open>EndpointManager::RegisterEndpoint\<close>, not among the sources): the id maps to the
  endpoint and all subscribed observers are invoked with \<open>(Added, id)\<close>.
\<close>

definition EndpointManager_RegisterEndpoint :: "uint16_t \<Rightarrow> nat \<Rightarrow> E133Device \<Rightarrow> E133Device" where
  "EndpointManager_RegisterEndpoint endpoint_id endpoint s =
     RunNotifications endpoint_id ADD
       (s\<lparr>m_endpoint_manager := (m_endpoint_manager s)
            \<lparr>m_endpoint_map := AList.update endpoint_id endpoint (m_endpoint_map (m_endpoint_manager s))\<rparr>\<rparr>)"

text \<open>
  Modelled from the spec: the Endpoint Registry, \<open>unregister(id)\<close>
  (\<open>EndpointManager::UnRegisterEndpoint\<close>, not among the sources): the id is removed and
  the observers are invoked with \<open>(Removed, id)\<close>; unregistering an id that is not
  registered is a no-op, with no observer notification.
\<close>

definition EndpointManager_UnRegisterEndpoint :: "uint16_t \<Rightarrow> E133Device \<Rightarrow> E133Device" where
  "EndpointManager_UnRegisterEndpoint endpoint_id s =
     (if map_of (m_endpoint_map (m_endpoint_manager s)) endpoint_id = None then s
      else RunNotifications endpoint_id REMOVE
             (s\<lparr>m_endpoint_manager := (m_endpoint_manager s)
                  \<lparr>m_endpoint_map := AList.delete endpoint_id (m_endpoint_map (m_endpoint_manager s))\<rparr>\<rparr>))"

datatype registry_call = Register uint16_t nat | UnRegister uint16_t

fun registry_calls :: "registry_call list \<Rightarrow> E133Device \<Rightarrow> E133Device" where
  "registry_calls [] s = s"
| "registry_calls (Register endpoint_id endpoint # calls) s =
     registry_calls calls (EndpointManager_RegisterEndpoint endpoint_id endpoint s)"
| "registry_calls (UnRegister endpoint_id # calls) s =
     registry_calls calls (EndpointManager_UnRegisterEndpoint endpoint_id s)"

subsection \<open>Observations\<close>

text \<open>The replies sent, the requests handed to endpoints and the registry lookups of a trace.\<close>

definition is_reply :: "action \<Rightarrow> bool" where
  "is_reply a = (case a of SendRDM_call header pdu transport ok \<Rightarrow> True | _ \<Rightarrow> False)"

definition is_dispatch :: "action \<Rightarrow> bool" where
  "is_dispatch a = (case a of SendRDMRequest_call endpoint request on_complete \<Rightarrow> True | _ \<Rightarrow> False)"

definition is_lookup :: "action \<Rightarrow> bool" where
  "is_lookup a = (case a of GetEndpoint_call endpoint_id \<Rightarrow> True | _ \<Rightarrow> False)"

text \<open>The line that \<open>TCPConnectionClosed\<close> logs each time it runs.\<close>

definition close_notification :: action where
  "close_notification = Log OLA_INFO [Str ''TCP conection closed'']"

text \<open>The endpoint ids with a handler in the RDM inflator, and those in the registry.\<close>

definition handler_ids :: "E133Device \<Rightarrow> uint16_t set" where
  "handler_ids s = dom (m_rdm_handlers (m_rdm_inflator s))"

definition registered_ids :: "E133Device \<Rightarrow> uint16_t set" where
  "registered_ids s = set (fst (EndpointIDs s))"

text \<open>The device's two observers, and only they, are subscribed to the registry.\<close>

definition subscribed :: "E133Device \<Rightarrow> bool" where
  "subscribed s =
     (m_callbacks (m_endpoint_manager s) =
        [(ADD, RegisterEndpoint_callback), (REMOVE, UnRegisterEndpoint_callback)])"

subsection \<open>Concrete devices\<close>

definition empty_registry :: EndpointManager where
  "empty_registry = \<lparr>m_endpoint_map = [], m_callbacks = []\<rparr>"

definition zero_stats :: TCPConnectionStats where
  "zero_stats = \<lparr>ip_address = 0, connection_events = 0, unhealthy_events = 0\<rparr>"

definition client_socket :: TcpSocket where
  "client_socket = \<lparr>peer = Some (0x0A000002, 40000), is_open = True, on_close = None, on_data = None\<rparr>"

text \<open>
  A device built over an empty registry, with statistics (or with the null pointer), and
  two TCP sockets that the listening socket has accepted, at addresses 1 and 2.
\<close>

definition fresh_device :: "TCPConnectionStats option \<Rightarrow> E133Device" where
  "fresh_device tcp_stats =
     (E133Device_new \<lparr>read_descriptors = {}\<rparr> 0x0A000001 empty_registry tcp_stats [])
       \<lparr>tcp_sockets := [1 \<mapsto> client_socket, 2 \<mapsto> client_socket]\<rparr>"

text \<open>The same device once it has accepted the socket at address 1.\<close>

definition connected_device :: "TCPConnectionStats option \<Rightarrow> E133Device" where
  "connected_device tcp_stats = NewTCPConnection True 1 (fresh_device tcp_stats)"

text \<open>
  A device whose root endpoint is the endpoint at address 4, while the registry maps id 3
  to the endpoint at address 5 and id 0 to the endpoint at address 9.
\<close>

definition routing_device :: E133Device where
  "routing_device =
     SetRootEndpoint (Some 4)
       (EndpointManager_RegisterEndpoint 0 9
         (EndpointManager_RegisterEndpoint 3 5 (fresh_device None)))"

text \<open>A parser that accepts exactly the non-empty payloads.\<close>

definition sample_inflate :: "string \<Rightarrow> RDMRequest option" where
  "sample_inflate raw = (if raw = [] then None else Some (RDMRequest (map (of_nat \<circ> of_char) raw)))"

definition sample_transport_header :: "TransportType \<Rightarrow> TransportHeader" where
  "sample_transport_header kind = \<lparr>SourceIP = 0x0A000002, SourcePort = 40000, Transport = kind\<rparr>"

definition sample_e133_header :: E133Header where
  "sample_e133_header =
     \<lparr>Source = ''controller'', Sequence = 7, Endpoint = 3, RxAcknowledge = False, Timeout = False\<rparr>"

section \<open>Properties\<close>

subsection \<open>Unfolding the collaborators and the concrete devices\<close>

lemmas collaborator_defs = record_call_def OLA_LOG_def AddReadDescriptor_def RemoveReadDescriptor_def
  TcpAcceptingSocket_SetOnAccept_def TcpAcceptingSocket_Listen_def TcpAcceptingSocket_Close_def
  UdpSocket_Init_def UdpSocket_Bind_def UdpSocket_SetOnData_def update_TcpSocket_def
  TcpSocket_GetPeer_def TcpSocket_SetOnClose_def TcpSocket_SetOnData_def TcpSocket_TransferOnClose_def
  TcpSocket_Close_def delete_TcpSocket_def HealthCheckedConnection_Setup_def
  HealthCheckedConnection_SendHeartbeat_def HealthCheckedConnection_HeartbeatReceived_def
  SetRDMHandler_def RemoveRDMHandler_def RegisterNotification_def UnRegisterNotification_def
  EndpointIDs_def GetEndpoint_def SendRDMRequest_def SendRDM_def

lemmas example_defs = empty_registry_def zero_stats_def client_socket_def fresh_device_def
  connected_device_def sample_inflate_def sample_transport_header_def sample_e133_header_def
  E133Device_new_def IPV4Address_default_def

subsection \<open>Requests and completions\<close>

lemma EndpointRequestComplete_ok:
  "EndpointRequestComplete send_ok src_ip src_port sequence_number endpoint_id RDM_COMPLETED_OK
       response_ptr packets s =
     s\<lparr>io_trace := io_trace s @
          SendRDM_call \<lparr>Source = ''foo bar'', Sequence = sequence_number, Endpoint = endpoint_id,
                         RxAcknowledge = False, Timeout = False\<rparr>
            (RDMPDU response_ptr) (OutgoingUDPTransport src_ip src_port) send_ok
          # (if send_ok then [] else [Log OLA_WARN [Str ''Failed to send E1.33 response'']])\<rparr>"
  by (simp add: EndpointRequestComplete_def collaborator_defs Let_def)

lemma EndpointRequest_trace:
  "EndpointRequest InflateFromData endpoint_id transport_header e133_header raw_request s =
     s\<lparr>io_trace := io_trace s @
          Log OLA_INFO [Str ''Got request for to endpoint '', U16 endpoint_id, Str '' from '',
                        Addr (SourceIP transport_header)]
          # (if endpoint_id \<noteq> 0 then [GetEndpoint_call endpoint_id] else [])
          @ [case (if endpoint_id \<noteq> 0
                   then map_of (m_endpoint_map (m_endpoint_manager s)) endpoint_id
                   else m_root_endpoint s) of
               None \<Rightarrow>
                 Log OLA_INFO [Str ''Request to endpoint '', U16 endpoint_id,
                               Str '' but no Endpoint has been registered, this is a bug!'']
             | Some e \<Rightarrow>
                 (case InflateFromData raw_request of
                    None \<Rightarrow> Log OLA_WARN [Str ''Failed to unpack E1.33 RDM message, ignoring request.'']
                  | Some request \<Rightarrow>
                      SendRDMRequest_call e request
                        (EndpointRequestComplete_callback (SourceIP transport_header)
                           (SourcePort transport_header) (Sequence e133_header) endpoint_id))]\<rparr>"
  by (simp add: EndpointRequest_def collaborator_defs Let_def split: option.split)

text \<open>
  C1. A completion with \<open>RDM_COMPLETED_OK\<close> sends exactly one reply: one \<open>SendRDM\<close> on
  an \<open>OutgoingUDPTransport\<close> addressed to the source address and port held by the completion,
  with a header carrying its sequence number and endpoint id, and changes nothing else (a
  send that the sender reports as failed is logged). The completion that
  \<open>EndpointRequest\<close> hands to the endpoint holds the source address, the source port and
  the sequence number of the request and the endpoint id; the transport the request
  arrived on is not part of it, so the reply goes out over UDP to the sender of the request
  whether the request came over TCP or UDP.
\<close>

theorem success_sends_one_udp_reply:
  "EndpointRequestComplete send_ok src_ip src_port sequence_number endpoint_id RDM_COMPLETED_OK
       response_ptr packets s =
     s\<lparr>io_trace := io_trace s @
          SendRDM_call \<lparr>Source = ''foo bar'', Sequence = sequence_number, Endpoint = endpoint_id,
                         RxAcknowledge = False, Timeout = False\<rparr>
            (RDMPDU response_ptr) (OutgoingUDPTransport src_ip src_port) send_ok
          # (if send_ok then [] else [Log OLA_WARN [Str ''Failed to send E1.33 response'']])\<rparr>
   \<and> filter is_reply
         (io_trace (EndpointRequestComplete send_ok src_ip src_port sequence_number endpoint_id
                      RDM_COMPLETED_OK response_ptr packets s)) =
       filter is_reply (io_trace s) @
         [SendRDM_call \<lparr>Source = ''foo bar'', Sequence = sequence_number, Endpoint = endpoint_id,
                         RxAcknowledge = False, Timeout = False\<rparr>
            (RDMPDU response_ptr) (OutgoingUDPTransport src_ip src_port) send_ok]
   \<and> filter is_dispatch
         (io_trace (EndpointRequest InflateFromData endpoint_id transport_header e133_header
                      raw_request s)) =
       filter is_dispatch (io_trace s) @
         (case (if endpoint_id \<noteq> 0
                then map_of (m_endpoint_map (m_endpoint_manager s)) endpoint_id
                else m_root_endpoint s, InflateFromData raw_request) of
            (Some e, Some request) \<Rightarrow>
              [SendRDMRequest_call e request
                 (EndpointRequestComplete_callback (SourceIP transport_header)
                    (SourcePort transport_header) (Sequence e133_header) endpoint_id)]
          | _ \<Rightarrow> [])
   \<and> Run_RDMCallback
         (EndpointRequestComplete_callback (SourceIP transport_header)
            (SourcePort transport_header) (Sequence e133_header) endpoint_id)
         send_ok RDM_COMPLETED_OK response_ptr packets s =
       s\<lparr>io_trace := io_trace s @
          SendRDM_call \<lparr>Source = ''foo bar'', Sequence = Sequence e133_header, Endpoint = endpoint_id,
                         RxAcknowledge = False, Timeout = False\<rparr>
            (RDMPDU response_ptr)
            (OutgoingUDPTransport (SourceIP transport_header) (SourcePort transport_header)) send_ok
          # (if send_ok then [] else [Log OLA_WARN [Str ''Failed to send E1.33 response'']])\<rparr>"
proof -
  have sent: "is_reply (SendRDM_call h p t ok)" for h p t ok
    by (simp add: is_reply_def)
  have quiet: "\<not> is_reply (Log l i)" for l i
    by (simp add: is_reply_def)
  have no_dispatch: "\<not> is_dispatch (Log l i)" "\<not> is_dispatch (GetEndpoint_call n)" for l i n
    by (simp_all add: is_dispatch_def)
  have dispatch: "is_dispatch (SendRDMRequest_call e r c)" for e r c
    by (simp add: is_dispatch_def)
  show ?thesis
    by (simp add: EndpointRequestComplete_ok EndpointRequest_trace Run_RDMCallback_def
          sent quiet no_dispatch dispatch split: option.split)
qed

lemma EndpointRequestComplete_failed:
  "response_code \<noteq> RDM_COMPLETED_OK \<Longrightarrow>
   EndpointRequestComplete send_ok src_ip src_port sequence_number endpoint_id response_code
       response_ptr packets s =
     (if response_code = RDM_WAS_BROADCAST then s
      else s\<lparr>io_trace := io_trace s @
             [Log OLA_WARN [Str ''E1.33 request failed with code '',
                            ResponseCodeToString response_code, Str '', dropping request'']]\<rparr>)"
  by (simp add: EndpointRequestComplete_def collaborator_defs)

lemma E133DataReceived_trace:
  "E133DataReceived header s =
     s\<lparr>io_trace := io_trace s @
          Log OLA_INFO [Str ''got some E1.33 data from '', Addr (SourceIP header)]
          # (if Transport header = TCP \<and> m_health_checked_connection s \<noteq> None
             then [HealthCheckedConnection_HeartbeatReceived_call] else [])\<rparr>"
  by (simp add: E133DataReceived_def collaborator_defs Let_def)

text \<open>
  C7. A completion whose code is not \<open>RDM_COMPLETED_OK\<close> sends no reply: for
  \<open>RDM_WAS_BROADCAST\<close> the device is left exactly as it was, for any other code the only
  change is one warning in the log.
\<close>

theorem failed_completion_sends_nothing:
  assumes "response_code \<noteq> RDM_COMPLETED_OK"
  shows "EndpointRequestComplete send_ok src_ip src_port sequence_number endpoint_id response_code
             response_ptr packets s =
           (if response_code = RDM_WAS_BROADCAST then s
            else s\<lparr>io_trace := io_trace s @
                   [Log OLA_WARN [Str ''E1.33 request failed with code '',
                                  ResponseCodeToString response_code, Str '', dropping request'']]\<rparr>)
         \<and> filter is_reply
               (io_trace (EndpointRequestComplete send_ok src_ip src_port sequence_number
                            endpoint_id response_code response_ptr packets s)) =
             filter is_reply (io_trace s)"
  using assms by (simp add: EndpointRequestComplete_failed is_reply_def)

text \<open>
  C5. \<open>E133DataReceived\<close> calls \<open>HeartbeatReceived\<close> once when the transport header says
  TCP and a health-checked connection exists, and not at all otherwise; in particular never
  for a message that arrived over UDP.
\<close>

theorem heartbeat_only_for_tcp_traffic:
  "E133DataReceived header s =
     s\<lparr>io_trace := io_trace s @
          Log OLA_INFO [Str ''got some E1.33 data from '', Addr (SourceIP header)]
          # (if Transport header = TCP \<and> m_health_checked_connection s \<noteq> None
             then [HealthCheckedConnection_HeartbeatReceived_call] else [])\<rparr>
   \<and> count_list (io_trace (E133DataReceived header s)) HealthCheckedConnection_HeartbeatReceived_call =
       count_list (io_trace s) HealthCheckedConnection_HeartbeatReceived_call
       + (if Transport header = TCP \<and> m_health_checked_connection s \<noteq> None then 1 else 0)"
  by (simp add: E133DataReceived_trace)

text \<open>
  C9. When the endpoint of a request exists and the payload does not parse as an RDM
  request, \<open>EndpointRequest\<close> logs a warning and does nothing else: nothing is handed to
  an endpoint, so no completion exists, and no reply is sent.
\<close>

theorem unparsable_request_is_dropped:
  assumes "(if endpoint_id \<noteq> 0
            then map_of (m_endpoint_map (m_endpoint_manager s)) endpoint_id
            else m_root_endpoint s) = Some e"
      and "InflateFromData raw_request = None"
  shows "EndpointRequest InflateFromData endpoint_id transport_header e133_header raw_request s =
           s\<lparr>io_trace := io_trace s @
                Log OLA_INFO [Str ''Got request for to endpoint '', U16 endpoint_id, Str '' from '',
                              Addr (SourceIP transport_header)]
                # (if endpoint_id \<noteq> 0 then [GetEndpoint_call endpoint_id] else [])
                @ [Log OLA_WARN [Str ''Failed to unpack E1.33 RDM message, ignoring request.'']]\<rparr>
         \<and> filter is_dispatch
               (io_trace (EndpointRequest InflateFromData endpoint_id transport_header e133_header
                            raw_request s)) =
             filter is_dispatch (io_trace s)
         \<and> filter is_reply
               (io_trace (EndpointRequest InflateFromData endpoint_id transport_header e133_header
                            raw_request s)) =
             filter is_reply (io_trace s)"
  using assms by (simp add: EndpointRequest_trace is_dispatch_def is_reply_def)

text \<open>
  C3. A request for endpoint id 0 goes to \<open>m_root_endpoint\<close>: the outcome does not depend
  on the registry, no \<open>GetEndpoint\<close> is made, and a bound root endpoint receives the
  request. A request for a non-zero id makes one \<open>GetEndpoint\<close> for that id; when the
  registry has no endpoint for it, the request is dropped with the log line and nothing is
  handed to any endpoint; when it has one, that endpoint receives the request.
\<close>

theorem endpoint_zero_is_the_root_endpoint:
  "EndpointRequest InflateFromData 0 transport_header e133_header raw_request
       (s\<lparr>m_endpoint_manager := registry\<rparr>) =
     (EndpointRequest InflateFromData 0 transport_header e133_header raw_request s)
       \<lparr>m_endpoint_manager := registry\<rparr>
   \<and> filter is_lookup
         (io_trace (EndpointRequest InflateFromData 0 transport_header e133_header raw_request s)) =
       filter is_lookup (io_trace s)
   \<and> (m_root_endpoint s = Some root \<longrightarrow> InflateFromData raw_request = Some request \<longrightarrow>
        EndpointRequest InflateFromData 0 transport_header e133_header raw_request s =
          s\<lparr>io_trace := io_trace s @
               [Log OLA_INFO [Str ''Got request for to endpoint '', U16 0, Str '' from '',
                              Addr (SourceIP transport_header)],
                SendRDMRequest_call root request
                  (EndpointRequestComplete_callback (SourceIP transport_header)
                     (SourcePort transport_header) (Sequence e133_header) 0)]\<rparr>)
   \<and> (endpoint_id \<noteq> 0 \<longrightarrow>
        filter is_lookup
          (io_trace (EndpointRequest InflateFromData endpoint_id transport_header e133_header
                       raw_request s)) =
        filter is_lookup (io_trace s) @ [GetEndpoint_call endpoint_id])
   \<and> (endpoint_id \<noteq> 0 \<longrightarrow>
        map_of (m_endpoint_map (m_endpoint_manager s)) endpoint_id = None \<longrightarrow>
        EndpointRequest InflateFromData endpoint_id transport_header e133_header raw_request s =
          s\<lparr>io_trace := io_trace s @
               [Log OLA_INFO [Str ''Got request for to endpoint '', U16 endpoint_id, Str '' from '',
                              Addr (SourceIP transport_header)],
                GetEndpoint_call endpoint_id,
                Log OLA_INFO [Str ''Request to endpoint '', U16 endpoint_id,
                              Str '' but no Endpoint has been registered, this is a bug!'']]\<rparr>)
   \<and> (endpoint_id \<noteq> 0 \<longrightarrow>
        map_of (m_endpoint_map (m_endpoint_manager s)) endpoint_id = Some e \<longrightarrow>
        InflateFromData raw_request = Some request \<longrightarrow>
        EndpointRequest InflateFromData endpoint_id transport_header e133_header raw_request s =
          s\<lparr>io_trace := io_trace s @
               [Log OLA_INFO [Str ''Got request for to endpoint '', U16 endpoint_id, Str '' from '',
                              Addr (SourceIP transport_header)],
                GetEndpoint_call endpoint_id,
                SendRDMRequest_call e request
                  (EndpointRequestComplete_callback (SourceIP transport_header)
                     (SourcePort transport_header) (Sequence e133_header) endpoint_id)]\<rparr>)"
  by (simp add: EndpointRequest_trace is_lookup_def split: option.split)

subsection \<open>The TCP session\<close>

lemma NewTCPConnection_reject:
  assumes "m_health_checked_connection s \<noteq> None"
  shows "NewTCPConnection setup_ok d s =
           s\<lparr>tcp_sockets := (tcp_sockets s)(d := None),
              io_trace := io_trace s @
                [TcpSocket_GetPeer_call d,
                 (case Option.bind (tcp_sockets s d) peer of
                    Some (a, p) \<Rightarrow>
                      Log OLA_INFO [Str ''New TCP connection from '', Addr a, Str '':'', U16 p]
                  | None \<Rightarrow>
                      Log OLA_WARN [Str ''New TCP connection but failed to determine peer address'']),
                 Log OLA_WARN [Str ''Already got a TCP connection open, closing this one''],
                 TcpSocket_Close_call d,
                 TcpSocket_delete_call d]\<rparr>"
proof (cases "Option.bind (tcp_sockets s d) peer")
  case None
  then show ?thesis using assms
    by (simp add: NewTCPConnection_def collaborator_defs Let_def)
next
  case (Some ap)
  then show ?thesis using assms
    by (cases ap) (simp add: NewTCPConnection_def collaborator_defs Let_def)
qed

lemma NewTCPConnection_accept:
  assumes "m_health_checked_connection s = None"
  shows "NewTCPConnection True d s =
           s\<lparr>m_tcp_stats :=
                map_option
                  (\<lambda>st. st\<lparr>connection_events := connection_events st + 1,
                            ip_address := (case Option.bind (tcp_sockets s d) peer of
                                             Some (a, p) \<Rightarrow> a | None \<Rightarrow> IPV4Address_default)\<rparr>)
                  (m_tcp_stats s),
              m_tcp_descriptor := Some d,
              m_health_checked_connection :=
                Some \<lparr>hc_on_unhealthy = TCPConnectionUnhealthy_callback, hc_descriptor = d,
                      hc_interval = m_health_check_interval s\<rparr>,
              m_ss := (m_ss s)\<lparr>read_descriptors :=
                                insert (TcpSocket_descriptor d) (read_descriptors (m_ss s))\<rparr>,
              m_incoming_tcp_transport := Some \<lparr>tcp_transport_descriptor = d\<rparr>,
              tcp_sockets := (tcp_sockets s)
                (d := map_option
                        (\<lambda>t. t\<lparr>on_close := Some TCPConnectionClosed_callback,
                                on_data := Some IncomingTCPTransport_Receive\<rparr>)
                        (tcp_sockets s d)),
              io_trace := io_trace s @
                [TcpSocket_GetPeer_call d,
                 (case Option.bind (tcp_sockets s d) peer of
                    Some (a, p) \<Rightarrow>
                      Log OLA_INFO [Str ''New TCP connection from '', Addr a, Str '':'', U16 p]
                  | None \<Rightarrow>
                      Log OLA_WARN [Str ''New TCP connection but failed to determine peer address'']),
                 TcpSocket_SetOnClose_call d TCPConnectionClosed_callback,
                 HealthCheckedConnection_Setup_call True,
                 HealthCheckedConnection_SendHeartbeat_call,
                 TcpSocket_SetOnData_call d IncomingTCPTransport_Receive,
                 AddReadDescriptor_call (TcpSocket_descriptor d)]\<rparr>"
proof -
  have sock: "map_option f (map_option g x) = map_option (f \<circ> g) x" for f g and x :: "TcpSocket option"
    by (cases x) simp_all
  show ?thesis
  proof (cases "Option.bind (tcp_sockets s d) peer")
    case None
    show ?thesis
    proof (cases "m_tcp_stats s")
      case no_stats: None
      show ?thesis using assms None no_stats
        by (simp add: NewTCPConnection_def collaborator_defs Let_def sock comp_def)
    next
      case (Some st)
      show ?thesis using assms None Some
        by (simp add: NewTCPConnection_def collaborator_defs Let_def sock comp_def)
    qed
  next
    case (Some ap)
    obtain a p where ap: "ap = (a, p)" by (cases ap)
    show ?thesis
    proof (cases "m_tcp_stats s")
      case None
      show ?thesis using assms Some ap None
        by (simp add: NewTCPConnection_def collaborator_defs Let_def sock comp_def)
    next
      case stats: (Some st)
      show ?thesis using assms Some ap stats
        by (simp add: NewTCPConnection_def collaborator_defs Let_def sock comp_def)
    qed
  qed
qed

lemma TCPConnectionClosed_null_stats:
  "m_tcp_stats s = None \<Longrightarrow> TCPConnectionClosed s = Inl NullPointerDereference"
  by (simp add: TCPConnectionClosed_def collaborator_defs Let_def)

lemma TCPConnectionClosed_stats:
  "m_tcp_stats s = Some st \<Longrightarrow>
   TCPConnectionClosed s =
     Inr (s\<lparr>m_tcp_stats := Some (st\<lparr>ip_address := IPV4Address_default\<rparr>),
            m_tcp_descriptor := None,
            m_health_checked_connection := None,
            m_incoming_tcp_transport := None,
            tcp_sockets := (case m_tcp_descriptor s of
                              Some d \<Rightarrow> (tcp_sockets s)(d := None) | None \<Rightarrow> tcp_sockets s),
            io_trace := io_trace s @ close_notification
              # (case m_tcp_descriptor s of Some d \<Rightarrow> [TcpSocket_delete_call d] | None \<Rightarrow> [])\<rparr>)"
  by (cases "m_tcp_descriptor s")
     (simp_all add: TCPConnectionClosed_def collaborator_defs Let_def close_notification_def)

lemma TCPConnectionUnhealthy_null_stats:
  assumes "m_tcp_stats s = None"
  shows "TCPConnectionUnhealthy s = Inl NullPointerDereference"
proof (cases "m_tcp_descriptor s")
  case None
  then show ?thesis using assms
    by (simp add: TCPConnectionUnhealthy_def collaborator_defs Let_def)
next
  case (Some d)
  show ?thesis
  proof (cases "Option.bind (tcp_sockets s d) on_close")
    case None
    then show ?thesis using assms Some
      by (cases "tcp_sockets s d")
         (simp_all add: TCPConnectionUnhealthy_def collaborator_defs Let_def)
  next
    case cb: (Some cb)
    then show ?thesis using assms Some
      by (cases "tcp_sockets s d")
         (simp_all add: TCPConnectionUnhealthy_def collaborator_defs Let_def
            Run_OnCloseCallback_def TCPConnectionClosed_def split: OnCloseCallback.split)
  qed
qed

lemma TCPConnectionUnhealthy_session:
  assumes "m_tcp_descriptor s = Some d" and "tcp_sockets s d = Some sock"
      and "on_close sock = Some cb" and "m_tcp_stats s = Some st"
  shows "TCPConnectionUnhealthy s =
           Inr (s\<lparr>m_tcp_stats := Some (st\<lparr>unhealthy_events := unhealthy_events st + 1,
                                          ip_address := IPV4Address_default\<rparr>),
                  m_tcp_descriptor := None,
                  m_health_checked_connection := None,
                  m_ss := (m_ss s)\<lparr>read_descriptors :=
                                    read_descriptors (m_ss s) - {TcpSocket_descriptor d}\<rparr>,
                  m_incoming_tcp_transport := None,
                  tcp_sockets := (tcp_sockets s)(d := None),
                  io_trace := io_trace s @
                    [Log OLA_INFO [Str ''TCP connection went unhealthy, closing''],
                     RemoveReadDescriptor_call (TcpSocket_descriptor d),
                     TcpSocket_Close_call d,
                     TcpSocket_TransferOnClose_call d,
                     close_notification,
                     TcpSocket_delete_call d]\<rparr>)"
  using assms
  by (cases cb)
     (simp add: TCPConnectionUnhealthy_def collaborator_defs Let_def Run_OnCloseCallback_def
        TCPConnectionClosed_def close_notification_def)

text \<open>
  C2. While a health-checked connection exists, \<open>NewTCPConnection\<close> closes and deletes
  the new socket and does nothing else but log: the statistics (event counter and peer
  address), the monitor, the descriptor and transport of the existing session, the select
  server and every other socket stay as they were.
\<close>

theorem second_connection_is_closed:
  assumes "m_health_checked_connection s \<noteq> None"
  shows "NewTCPConnection setup_ok d s =
           s\<lparr>tcp_sockets := (tcp_sockets s)(d := None),
              io_trace := io_trace s @
                [TcpSocket_GetPeer_call d,
                 (case Option.bind (tcp_sockets s d) peer of
                    Some (a, p) \<Rightarrow>
                      Log OLA_INFO [Str ''New TCP connection from '', Addr a, Str '':'', U16 p]
                  | None \<Rightarrow>
                      Log OLA_WARN [Str ''New TCP connection but failed to determine peer address'']),
                 Log OLA_WARN [Str ''Already got a TCP connection open, closing this one''],
                 TcpSocket_Close_call d,
                 TcpSocket_delete_call d]\<rparr>
         \<and> m_tcp_stats (NewTCPConnection setup_ok d s) = m_tcp_stats s
         \<and> m_health_checked_connection (NewTCPConnection setup_ok d s) = m_health_checked_connection s
         \<and> m_tcp_descriptor (NewTCPConnection setup_ok d s) = m_tcp_descriptor s
         \<and> m_incoming_tcp_transport (NewTCPConnection setup_ok d s) = m_incoming_tcp_transport s
         \<and> m_ss (NewTCPConnection setup_ok d s) = m_ss s
         \<and> tcp_sockets (NewTCPConnection setup_ok d s) d = None
         \<and> (\<forall>d'. d' \<noteq> d \<longrightarrow> tcp_sockets (NewTCPConnection setup_ok d s) d' = tcp_sockets s d')"
  by (simp add: NewTCPConnection_reject [OF assms])

lemma connected_device_eq:
  "connected_device tcp_stats =
     (fresh_device tcp_stats)
       \<lparr>m_tcp_stats := map_option (\<lambda>st. st\<lparr>connection_events := connection_events st + 1,
                                             ip_address := 0x0A000002\<rparr>) tcp_stats,
        m_tcp_descriptor := Some 1,
        m_health_checked_connection :=
          Some \<lparr>hc_on_unhealthy = TCPConnectionUnhealthy_callback, hc_descriptor = 1,
                hc_interval = (2, 0)\<rparr>,
        m_ss := \<lparr>read_descriptors = {TcpSocket_descriptor 1}\<rparr>,
        m_incoming_tcp_transport := Some \<lparr>tcp_transport_descriptor = 1\<rparr>,
        tcp_sockets := [1 \<mapsto> client_socket\<lparr>on_close := Some TCPConnectionClosed_callback,
                                              on_data := Some IncomingTCPTransport_Receive\<rparr>,
                        2 \<mapsto> client_socket],
        io_trace := io_trace (fresh_device tcp_stats) @
          [TcpSocket_GetPeer_call 1,
           Log OLA_INFO [Str ''New TCP connection from '', Addr 0x0A000002, Str '':'', U16 40000],
           TcpSocket_SetOnClose_call 1 TCPConnectionClosed_callback,
           HealthCheckedConnection_Setup_call True,
           HealthCheckedConnection_SendHeartbeat_call,
           TcpSocket_SetOnData_call 1 IncomingTCPTransport_Receive,
           AddReadDescriptor_call (TcpSocket_descriptor 1)]\<rparr>"
proof -
  have idle: "m_health_checked_connection (fresh_device tcp_stats) = None"
    by (simp add: example_defs collaborator_defs Let_def)
  have heap: "tcp_sockets (fresh_device tcp_stats) = [1 \<mapsto> client_socket, 2 \<mapsto> client_socket]"
    by (simp add: example_defs collaborator_defs Let_def)
  have rest: "m_tcp_stats (fresh_device tcp_stats) = tcp_stats"
    "m_health_check_interval (fresh_device tcp_stats) = (2, 0)"
    "m_ss (fresh_device tcp_stats) = \<lparr>read_descriptors = {}\<rparr>"
    by (simp_all add: example_defs collaborator_defs Let_def)
  show ?thesis
    unfolding connected_device_def NewTCPConnection_accept [OF idle] heap rest
    by (simp add: client_socket_def fun_upd_twist)
qed

theorem second_connection_is_closed_witness:
  "m_health_checked_connection (connected_device (Some zero_stats)) \<noteq> None
   \<and> tcp_sockets (NewTCPConnection True 2 (connected_device (Some zero_stats))) 2 = None
   \<and> tcp_sockets (NewTCPConnection True 2 (connected_device (Some zero_stats))) 1 =
       Some (client_socket\<lparr>on_close := Some TCPConnectionClosed_callback,
                           on_data := Some IncomingTCPTransport_Receive\<rparr>)
   \<and> m_tcp_stats (NewTCPConnection True 2 (connected_device (Some zero_stats))) =
       Some \<lparr>ip_address = 0x0A000002, connection_events = 1, unhealthy_events = 0\<rparr>
   \<and> m_tcp_descriptor (NewTCPConnection True 2 (connected_device (Some zero_stats))) = Some 1"
  using second_connection_is_closed [of "connected_device (Some zero_stats)" True 2]
  by (simp add: connected_device_eq zero_stats_def)

text \<open>
  C4. For an active session (a descriptor with its close-notification installed) of a
  device with statistics, \<open>TCPConnectionUnhealthy\<close> increments \<open>unhealthy_events\<close>,
  removes the descriptor from the select server, closes the socket, takes the
  close-notification from the socket and runs it: \<open>TCPConnectionClosed\<close> runs exactly
  once, which resets the peer address and releases monitor, transport and socket.
\<close>

theorem unhealthy_connection_is_torn_down_once:
  assumes "m_tcp_descriptor s = Some d" and "tcp_sockets s d = Some sock"
      and "on_close sock = Some cb" and "m_tcp_stats s = Some st"
  shows "TCPConnectionUnhealthy s =
           Inr (s\<lparr>m_tcp_stats := Some (st\<lparr>unhealthy_events := unhealthy_events st + 1,
                                          ip_address := IPV4Address_default\<rparr>),
                  m_tcp_descriptor := None,
                  m_health_checked_connection := None,
                  m_ss := (m_ss s)\<lparr>read_descriptors :=
                                    read_descriptors (m_ss s) - {TcpSocket_descriptor d}\<rparr>,
                  m_incoming_tcp_transport := None,
                  tcp_sockets := (tcp_sockets s)(d := None),
                  io_trace := io_trace s @
                    [Log OLA_INFO [Str ''TCP connection went unhealthy, closing''],
                     RemoveReadDescriptor_call (TcpSocket_descriptor d),
                     TcpSocket_Close_call d,
                     TcpSocket_TransferOnClose_call d,
                     close_notification,
                     TcpSocket_delete_call d]\<rparr>)
         \<and> count_list (io_trace (projr (TCPConnectionUnhealthy s))) close_notification =
             count_list (io_trace s) close_notification + 1
         \<and> map_option unhealthy_events (m_tcp_stats (projr (TCPConnectionUnhealthy s))) =
             Some (unhealthy_events st + 1)
         \<and> TcpSocket_descriptor d \<notin> read_descriptors (m_ss (projr (TCPConnectionUnhealthy s)))
         \<and> tcp_sockets (projr (TCPConnectionUnhealthy s)) d = None"
  by (simp add: TCPConnectionUnhealthy_session [OF assms] close_notification_def)

theorem unhealthy_connection_is_torn_down_once_witness:
  "m_tcp_descriptor (connected_device (Some zero_stats)) = Some 1
   \<and> Option.bind (tcp_sockets (connected_device (Some zero_stats)) 1) on_close =
       Some TCPConnectionClosed_callback
   \<and> m_tcp_stats (connected_device (Some zero_stats)) =
       Some \<lparr>ip_address = 0x0A000002, connection_events = 1, unhealthy_events = 0\<rparr>
   \<and> count_list (io_trace (connected_device (Some zero_stats))) close_notification = 0
   \<and> count_list (io_trace (projr (TCPConnectionUnhealthy (connected_device (Some zero_stats)))))
         close_notification = 1
   \<and> m_tcp_stats (projr (TCPConnectionUnhealthy (connected_device (Some zero_stats)))) =
       Some \<lparr>ip_address = 0, connection_events = 1, unhealthy_events = 1\<rparr>
   \<and> read_descriptors (m_ss (projr (TCPConnectionUnhealthy (connected_device (Some zero_stats))))) = {}
   \<and> tcp_sockets (projr (TCPConnectionUnhealthy (connected_device (Some zero_stats)))) 1 = None
   \<and> m_health_checked_connection
         (projr (TCPConnectionUnhealthy (connected_device (Some zero_stats)))) = None"
proof -
  have d: "m_tcp_descriptor (connected_device (Some zero_stats)) = Some 1"
    by (simp add: connected_device_eq)
  have sock: "tcp_sockets (connected_device (Some zero_stats)) 1 =
                Some (client_socket\<lparr>on_close := Some TCPConnectionClosed_callback,
                                    on_data := Some IncomingTCPTransport_Receive\<rparr>)"
    by (simp add: connected_device_eq)
  have cb: "on_close (client_socket\<lparr>on_close := Some TCPConnectionClosed_callback,
                                    on_data := Some IncomingTCPTransport_Receive\<rparr>) =
              Some TCPConnectionClosed_callback"
    by simp
  have st: "m_tcp_stats (connected_device (Some zero_stats)) =
              Some \<lparr>ip_address = 0x0A000002, connection_events = 1, unhealthy_events = 0\<rparr>"
    by (simp add: connected_device_eq zero_stats_def)
  have fresh_trace: "io_trace (fresh_device (Some zero_stats)) =
                       [AddInflator_call The_E133Inflator, AddInflator_call The_RDMInflator,
                        RegisterNotification_call ADD RegisterEndpoint_callback,
                        RegisterNotification_call REMOVE UnRegisterEndpoint_callback]"
    by (simp add: example_defs collaborator_defs Let_def)
  have quiet: "count_list (io_trace (connected_device (Some zero_stats))) close_notification = 0"
    by (simp add: connected_device_eq fresh_trace close_notification_def)
  have ss: "read_descriptors (m_ss (connected_device (Some zero_stats))) = {TcpSocket_descriptor 1}"
    by (simp add: connected_device_eq)
  note torn_down = unhealthy_connection_is_torn_down_once [OF d sock cb st]
  note run = torn_down [THEN conjunct1]
  have once: "count_list (io_trace (projr (TCPConnectionUnhealthy (connected_device (Some zero_stats)))))
                close_notification = 1"
    using torn_down [THEN conjunct2, THEN conjunct1] quiet by simp
  have snapshot: "Option.bind (tcp_sockets (connected_device (Some zero_stats)) 1) on_close =
                    Some TCPConnectionClosed_callback"
    using sock by simp
  have after: "m_tcp_stats (projr (TCPConnectionUnhealthy (connected_device (Some zero_stats)))) =
                 Some \<lparr>ip_address = 0, connection_events = 1, unhealthy_events = 1\<rparr>
               \<and> read_descriptors
                     (m_ss (projr (TCPConnectionUnhealthy (connected_device (Some zero_stats))))) = {}
               \<and> tcp_sockets (projr (TCPConnectionUnhealthy (connected_device (Some zero_stats)))) 1 = None
               \<and> m_health_checked_connection
                     (projr (TCPConnectionUnhealthy (connected_device (Some zero_stats)))) = None"
    by (simp add: run ss IPV4Address_default_def)
  show ?thesis
    using after once d st quiet snapshot by simp
qed

text \<open>
  C10. With a null \<open>m_tcp_stats\<close>, \<open>TCPConnectionClosed\<close> dereferences the null pointer,
  and so does \<open>TCPConnectionUnhealthy\<close>, which runs it; \<open>NewTCPConnection\<close> checks the
  pointer and accepts a connection, after which every close of that connection faults.
\<close>

theorem null_statistics_fault_on_close:
  assumes "m_tcp_stats s = None"
  shows "TCPConnectionClosed s = Inl NullPointerDereference
         \<and> TCPConnectionUnhealthy s = Inl NullPointerDereference
         \<and> (m_health_checked_connection s = None \<longrightarrow>
              m_health_checked_connection (NewTCPConnection True d s) \<noteq> None
              \<and> m_tcp_descriptor (NewTCPConnection True d s) = Some d
              \<and> TcpSocket_descriptor d \<in> read_descriptors (m_ss (NewTCPConnection True d s))
              \<and> m_tcp_stats (NewTCPConnection True d s) = None
              \<and> TCPConnectionClosed (NewTCPConnection True d s) = Inl NullPointerDereference
              \<and> TCPConnectionUnhealthy (NewTCPConnection True d s) = Inl NullPointerDereference)"
proof -
  have after: "m_tcp_stats (NewTCPConnection True d s) = None"
    if "m_health_checked_connection s = None"
    using assms by (simp add: NewTCPConnection_accept [OF that])
  show ?thesis
    using assms
    by (auto simp add: TCPConnectionClosed_null_stats TCPConnectionUnhealthy_null_stats after
          NewTCPConnection_accept)
qed

theorem null_statistics_fault_on_close_witness:
  "m_tcp_stats (fresh_device None) = None
   \<and> m_health_checked_connection (fresh_device None) = None
   \<and> m_tcp_descriptor (connected_device None) = Some 1
   \<and> read_descriptors (m_ss (connected_device None)) = {TcpSocket_descriptor 1}
   \<and> TCPConnectionClosed (connected_device None) = Inl NullPointerDereference
   \<and> TCPConnectionUnhealthy (connected_device None) = Inl NullPointerDereference"
proof -
  have stats: "m_tcp_stats (fresh_device None) = None"
    by (simp add: example_defs collaborator_defs Let_def)
  have idle: "m_health_checked_connection (fresh_device None) = None"
    by (simp add: example_defs collaborator_defs Let_def)
  have faults: "TCPConnectionClosed (connected_device None) = Inl NullPointerDereference
                \<and> TCPConnectionUnhealthy (connected_device None) = Inl NullPointerDereference"
    unfolding connected_device_def
    using null_statistics_fault_on_close [OF stats, of 1] idle by simp
  have session: "m_tcp_descriptor (connected_device None) = Some 1
                 \<and> read_descriptors (m_ss (connected_device None)) = {TcpSocket_descriptor 1}"
    by (simp add: connected_device_eq)
  show ?thesis
    using faults session stats idle by simp
qed

subsection \<open>The registry and the handlers\<close>

lemma RegisterEndpoint_eq:
  "RegisterEndpoint endpoint_id s =
     s\<lparr>m_rdm_inflator := (m_rdm_inflator s)
          \<lparr>m_rdm_handlers := (m_rdm_handlers (m_rdm_inflator s))
             (endpoint_id \<mapsto> EndpointRequest_callback endpoint_id)\<rparr>,
        io_trace := io_trace s @
          [Log OLA_INFO [Str ''Endpoint '', U16 endpoint_id, Str '' has been added''],
           SetRDMHandler_call endpoint_id (EndpointRequest_callback endpoint_id)]\<rparr>"
  by (simp add: RegisterEndpoint_def collaborator_defs Let_def)

lemma UnRegisterEndpoint_eq:
  "UnRegisterEndpoint endpoint_id s =
     s\<lparr>m_rdm_inflator := (m_rdm_inflator s)
          \<lparr>m_rdm_handlers := (m_rdm_handlers (m_rdm_inflator s))(endpoint_id := None)\<rparr>,
        io_trace := io_trace s @
          [Log OLA_INFO [Str ''Endpoint '', U16 endpoint_id, Str '' has been removed''],
           RemoveRDMHandler_call endpoint_id]\<rparr>"
  by (simp add: UnRegisterEndpoint_def collaborator_defs Let_def)

lemma RunNotifications_ADD:
  "subscribed s \<Longrightarrow> RunNotifications endpoint_id ADD s = RegisterEndpoint endpoint_id s"
  by (simp add: RunNotifications_def subscribed_def Run_EndpointNoticationCallback_def)

lemma RunNotifications_REMOVE:
  "subscribed s \<Longrightarrow> RunNotifications endpoint_id REMOVE s = UnRegisterEndpoint endpoint_id s"
  by (simp add: RunNotifications_def subscribed_def Run_EndpointNoticationCallback_def)

lemma EndpointManager_RegisterEndpoint_eq:
  assumes "subscribed s"
  shows "EndpointManager_RegisterEndpoint endpoint_id endpoint s =
           s\<lparr>m_endpoint_manager := (m_endpoint_manager s)
                \<lparr>m_endpoint_map :=
                   AList.update endpoint_id endpoint (m_endpoint_map (m_endpoint_manager s))\<rparr>,
              m_rdm_inflator := (m_rdm_inflator s)
                \<lparr>m_rdm_handlers := (m_rdm_handlers (m_rdm_inflator s))
                   (endpoint_id \<mapsto> EndpointRequest_callback endpoint_id)\<rparr>,
              io_trace := io_trace s @
                [Log OLA_INFO [Str ''Endpoint '', U16 endpoint_id, Str '' has been added''],
                 SetRDMHandler_call endpoint_id (EndpointRequest_callback endpoint_id)]\<rparr>"
proof -
  have "subscribed (s\<lparr>m_endpoint_manager := (m_endpoint_manager s)
          \<lparr>m_endpoint_map :=
             AList.update endpoint_id endpoint (m_endpoint_map (m_endpoint_manager s))\<rparr>\<rparr>)"
    using assms by (simp add: subscribed_def)
  then show ?thesis
    by (simp add: EndpointManager_RegisterEndpoint_def RunNotifications_ADD RegisterEndpoint_eq)
qed

lemma EndpointManager_UnRegisterEndpoint_eq:
  assumes "subscribed s"
  shows "EndpointManager_UnRegisterEndpoint endpoint_id s =
           (if map_of (m_endpoint_map (m_endpoint_manager s)) endpoint_id = None then s
            else s\<lparr>m_endpoint_manager := (m_endpoint_manager s)
                     \<lparr>m_endpoint_map :=
                        AList.delete endpoint_id (m_endpoint_map (m_endpoint_manager s))\<rparr>,
                   m_rdm_inflator := (m_rdm_inflator s)
                     \<lparr>m_rdm_handlers := (m_rdm_handlers (m_rdm_inflator s))(endpoint_id := None)\<rparr>,
                   io_trace := io_trace s @
                     [Log OLA_INFO [Str ''Endpoint '', U16 endpoint_id, Str '' has been removed''],
                      RemoveRDMHandler_call endpoint_id]\<rparr>)"
proof -
  have "subscribed (s\<lparr>m_endpoint_manager := (m_endpoint_manager s)
          \<lparr>m_endpoint_map := AList.delete endpoint_id (m_endpoint_map (m_endpoint_manager s))\<rparr>\<rparr>)"
    using assms by (simp add: subscribed_def)
  then show ?thesis
    by (simp add: EndpointManager_UnRegisterEndpoint_def RunNotifications_REMOVE UnRegisterEndpoint_eq)
qed

lemma register_keeps_step:
  assumes "subscribed s" and "handler_ids s = registered_ids s"
  shows "subscribed (EndpointManager_RegisterEndpoint endpoint_id endpoint s)
         \<and> handler_ids (EndpointManager_RegisterEndpoint endpoint_id endpoint s) =
             registered_ids (EndpointManager_RegisterEndpoint endpoint_id endpoint s)"
proof -
  have "fst ` set (AList.update endpoint_id endpoint (m_endpoint_map (m_endpoint_manager s))) =
          insert endpoint_id (fst ` set (m_endpoint_map (m_endpoint_manager s)))"
    by (simp add: dom_update)
  then show ?thesis
    using assms
    by (simp add: EndpointManager_RegisterEndpoint_eq [OF assms(1)] subscribed_def handler_ids_def
          registered_ids_def EndpointIDs_def)
qed

lemma unregister_keeps_step:
  assumes "subscribed s" and "handler_ids s = registered_ids s"
  shows "subscribed (EndpointManager_UnRegisterEndpoint endpoint_id s)
         \<and> handler_ids (EndpointManager_UnRegisterEndpoint endpoint_id s) =
             registered_ids (EndpointManager_UnRegisterEndpoint endpoint_id s)"
proof -
  have "fst ` set (AList.delete endpoint_id (m_endpoint_map (m_endpoint_manager s))) =
          fst ` set (m_endpoint_map (m_endpoint_manager s)) - {endpoint_id}"
    by (simp add: AList.delete_eq) force
  then show ?thesis
    using assms
    by (simp add: EndpointManager_UnRegisterEndpoint_eq [OF assms(1)] subscribed_def handler_ids_def
          registered_ids_def EndpointIDs_def)
qed

lemma registry_calls_keep_step:
  "subscribed s \<Longrightarrow> handler_ids s = registered_ids s \<Longrightarrow>
   subscribed (registry_calls calls s)
   \<and> handler_ids (registry_calls calls s) = registered_ids (registry_calls calls s)"
proof (induction calls arbitrary: s)
  case Nil
  then show ?case by simp
next
  case (Cons c calls)
  show ?case
  proof (cases c)
    case (Register endpoint_id endpoint)
    with Cons.IH register_keeps_step [OF Cons.prems] show ?thesis by simp
  next
    case (UnRegister endpoint_id)
    with Cons.IH unregister_keeps_step [OF Cons.prems] show ?thesis by simp
  qed
qed

lemma E133Device_new_in_step:
  "subscribed (E133Device_new ss address empty_registry tcp_stats cid)
   \<and> handler_ids (E133Device_new ss address empty_registry tcp_stats cid) = {}
   \<and> registered_ids (E133Device_new ss address empty_registry tcp_stats cid) = {}"
  by (simp add: E133Device_new_def empty_registry_def collaborator_defs Let_def subscribed_def
        handler_ids_def registered_ids_def)

text \<open>
  C6. After any sequence of register and unregister calls on the registry of a newly
  constructed device, the endpoint ids with a handler in the RDM inflator are exactly the
  registered ids; \<open>RegisterEndpoint\<close> installs the handler of the added id and
  \<open>UnRegisterEndpoint\<close> removes the handler of the removed id.
\<close>

theorem handlers_follow_the_registry:
  "handler_ids (registry_calls calls (E133Device_new ss address empty_registry tcp_stats cid)) =
     registered_ids (registry_calls calls (E133Device_new ss address empty_registry tcp_stats cid))
   \<and> handler_ids (RegisterEndpoint endpoint_id s) = insert endpoint_id (handler_ids s)
   \<and> m_rdm_handlers (m_rdm_inflator (RegisterEndpoint endpoint_id s)) endpoint_id =
       Some (EndpointRequest_callback endpoint_id)
   \<and> handler_ids (UnRegisterEndpoint endpoint_id s) = handler_ids s - {endpoint_id}"
proof -
  have "handler_ids (registry_calls calls (E133Device_new ss address empty_registry tcp_stats cid)) =
     registered_ids (registry_calls calls (E133Device_new ss address empty_registry tcp_stats cid))"
    using registry_calls_keep_step [of "E133Device_new ss address empty_registry tcp_stats cid" calls]
      E133Device_new_in_step [of ss address tcp_stats cid]
    by simp
  then show ?thesis
    by (simp add: RegisterEndpoint_eq UnRegisterEndpoint_eq handler_ids_def)
qed

lemma SetRootEndpoint_handler_ids:
  "handler_ids (SetRootEndpoint endpoint s) = insert 0 (handler_ids s)
   \<and> registered_ids (SetRootEndpoint endpoint s) = registered_ids s
   \<and> m_root_endpoint (SetRootEndpoint endpoint s) = endpoint"
  by (simp add: SetRootEndpoint_def collaborator_defs handler_ids_def registered_ids_def)

lemma fold_RemoveRDMHandler:
  "handler_ids (fold RemoveRDMHandler ids s) = handler_ids s - set ids
   \<and> m_endpoint_manager (fold RemoveRDMHandler ids s) = m_endpoint_manager s
   \<and> m_register_endpoint_callback (fold RemoveRDMHandler ids s) = m_register_endpoint_callback s
   \<and> m_unregister_endpoint_callback (fold RemoveRDMHandler ids s) = m_unregister_endpoint_callback s"
proof (induction ids arbitrary: s)
  case Nil
  then show ?case by simp
next
  case (Cons i ids)
  have "handler_ids (RemoveRDMHandler i s) = handler_ids s - {i}"
    "m_endpoint_manager (RemoveRDMHandler i s) = m_endpoint_manager s"
    "m_register_endpoint_callback (RemoveRDMHandler i s) = m_register_endpoint_callback s"
    "m_unregister_endpoint_callback (RemoveRDMHandler i s) = m_unregister_endpoint_callback s"
    by (simp_all add: collaborator_defs handler_ids_def)
  with Cons.IH [of "RemoveRDMHandler i s"] show ?case
    by auto
qed

lemma E133Device_delete_removes_handlers:
  assumes "m_register_endpoint_callback s = Some RegisterEndpoint_callback"
      and "m_unregister_endpoint_callback s = Some UnRegisterEndpoint_callback"
  shows "handler_ids (E133Device_delete s) = handler_ids s - registered_ids s
         \<and> m_callbacks (m_endpoint_manager (E133Device_delete s)) =
             filter (\<lambda>(event, c). c \<noteq> RegisterEndpoint_callback \<and> c \<noteq> UnRegisterEndpoint_callback)
               (m_callbacks (m_endpoint_manager s))"
proof (cases "m_endpoint_map (m_endpoint_manager s) = []")
  case True
  then show ?thesis
    using assms
    by (simp add: E133Device_delete_def collaborator_defs Let_def handler_ids_def registered_ids_def
          case_prod_unfold conj_commute)
next
  case False
  let ?s1 = "OLA_LOG OLA_WARN [Str ''Some endpoints weren't removed correctly''] (record_call EndpointIDs_call s)"
  let ?ids = "map fst (m_endpoint_map (m_endpoint_manager s))"
  have s1: "handler_ids ?s1 = handler_ids s" "m_endpoint_manager ?s1 = m_endpoint_manager s"
    "m_register_endpoint_callback ?s1 = m_register_endpoint_callback s"
    "m_unregister_endpoint_callback ?s1 = m_unregister_endpoint_callback s"
    by (simp_all add: collaborator_defs handler_ids_def)
  note folded = fold_RemoveRDMHandler [of ?ids ?s1]
  have "handler_ids (E133Device_delete s) = handler_ids (fold RemoveRDMHandler ?ids ?s1)"
    using False assms folded s1
    by (simp add: E133Device_delete_def EndpointIDs_def Let_def UnRegisterNotification_def
          record_call_def handler_ids_def)
  moreover have "m_callbacks (m_endpoint_manager (E133Device_delete s)) =
             filter (\<lambda>(event, c). c \<noteq> RegisterEndpoint_callback \<and> c \<noteq> UnRegisterEndpoint_callback)
               (m_callbacks (m_endpoint_manager s))"
    using False assms folded s1
    by (simp add: E133Device_delete_def EndpointIDs_def Let_def UnRegisterNotification_def
          record_call_def case_prod_unfold conj_commute)
  ultimately show ?thesis
    using folded s1 by (simp add: registered_ids_def EndpointIDs_def)
qed

subsection \<open>Starting the device\<close>

lemma Init_result:
  "fst (Init E133_PORT listen_ok udp_init_ok udp_bind_ok s) = (listen_ok \<and> udp_init_ok \<and> udp_bind_ok)"
  by (simp add: Init_def Let_def)

lemma Init_failure_registers_nothing:
  "\<not> (listen_ok \<and> udp_init_ok \<and> udp_bind_ok) \<Longrightarrow>
   m_ss (snd (Init E133_PORT listen_ok udp_init_ok udp_bind_ok s)) = m_ss s"
  by (auto simp add: Init_def collaborator_defs Let_def)

lemma Init_listen_failure:
  "Init E133_PORT False udp_init_ok udp_bind_ok s =
     (False,
      s\<lparr>m_tcp_socket := (m_tcp_socket s)\<lparr>listening := False,
                                           on_accept := Some NewTCPConnection_callback\<rparr>,
         io_trace := io_trace s @
           [Log OLA_INFO [Str ''Attempting to start E1.33 device at '', Addr (m_ip_address s)],
            TcpAcceptingSocket_SetOnAccept_call NewTCPConnection_callback,
            TcpAcceptingSocket_Listen_call (m_ip_address s) E133_PORT False,
            TcpAcceptingSocket_Close_call]\<rparr>)"
  by (simp add: Init_def collaborator_defs Let_def)

lemma Init_udp_init_failure:
  "Init E133_PORT True False udp_bind_ok s =
     (False,
      s\<lparr>m_tcp_socket := (m_tcp_socket s)\<lparr>listening := False,
                                           on_accept := Some NewTCPConnection_callback\<rparr>,
         io_trace := io_trace s @
           [Log OLA_INFO [Str ''Attempting to start E1.33 device at '', Addr (m_ip_address s)],
            TcpAcceptingSocket_SetOnAccept_call NewTCPConnection_callback,
            TcpAcceptingSocket_Listen_call (m_ip_address s) E133_PORT True,
            UdpSocket_Init_call False,
            TcpAcceptingSocket_Close_call]\<rparr>)"
  by (simp add: Init_def collaborator_defs Let_def)

lemma Init_success:
  "Init E133_PORT True True True s =
     (True,
      s\<lparr>m_ss := (m_ss s)\<lparr>read_descriptors :=
                           insert TcpAcceptingSocket_descriptor
                             (insert UdpSocket_descriptor (read_descriptors (m_ss s)))\<rparr>,
         m_tcp_socket := (m_tcp_socket s)\<lparr>listening := True,
                                           on_accept := Some NewTCPConnection_callback\<rparr>,
         m_udp_socket := \<lparr>udp_open = True, udp_bound = Some E133_PORT,
                          udp_on_data = Some IncomingUDPTransport_Receive\<rparr>,
         io_trace := io_trace s @
           [Log OLA_INFO [Str ''Attempting to start E1.33 device at '', Addr (m_ip_address s)],
            TcpAcceptingSocket_SetOnAccept_call NewTCPConnection_callback,
            TcpAcceptingSocket_Listen_call (m_ip_address s) E133_PORT True,
            UdpSocket_Init_call True,
            UdpSocket_Bind_call E133_PORT True,
            UdpSocket_SetOnData_call IncomingUDPTransport_Receive,
            AddReadDescriptor_call UdpSocket_descriptor,
            AddReadDescriptor_call TcpAcceptingSocket_descriptor]\<rparr>)"
  by (simp add: Init_def collaborator_defs Let_def)

text \<open>
  C8. \<open>Init\<close> with a listening socket that listens and a UDP socket that opens but does not
  bind: \<open>Init\<close> returns false and closes the listening socket, and makes no call that
  closes the UDP socket, which stays open.
\<close>

theorem Init_bind_failure_leaves_udp_socket_open:
  "Init E133_PORT True True False s =
     (False,
      s\<lparr>m_tcp_socket := (m_tcp_socket s)\<lparr>listening := False,
                                           on_accept := Some NewTCPConnection_callback\<rparr>,
         m_udp_socket := (m_udp_socket s)\<lparr>udp_open := True\<rparr>,
         io_trace := io_trace s @
           [Log OLA_INFO [Str ''Attempting to start E1.33 device at '', Addr (m_ip_address s)],
            TcpAcceptingSocket_SetOnAccept_call NewTCPConnection_callback,
            TcpAcceptingSocket_Listen_call (m_ip_address s) E133_PORT True,
            UdpSocket_Init_call True,
            UdpSocket_Bind_call E133_PORT False,
            TcpAcceptingSocket_Close_call]\<rparr>)
   \<and> udp_open (m_udp_socket (snd (Init E133_PORT True True False s)))
   \<and> \<not> udp_open (m_udp_socket (fresh_device None))
   \<and> udp_open (m_udp_socket (snd (Init 5569 True True False (fresh_device None))))"
proof -
  have run: "Init E133_PORT True True False s =
     (False,
      s\<lparr>m_tcp_socket := (m_tcp_socket s)\<lparr>listening := False,
                                           on_accept := Some NewTCPConnection_callback\<rparr>,
         m_udp_socket := (m_udp_socket s)\<lparr>udp_open := True\<rparr>,
         io_trace := io_trace s @
           [Log OLA_INFO [Str ''Attempting to start E1.33 device at '', Addr (m_ip_address s)],
            TcpAcceptingSocket_SetOnAccept_call NewTCPConnection_callback,
            TcpAcceptingSocket_Listen_call (m_ip_address s) E133_PORT True,
            UdpSocket_Init_call True,
            UdpSocket_Bind_call E133_PORT False,
            TcpAcceptingSocket_Close_call]\<rparr>)" for E133_PORT s
    by (simp add: Init_def collaborator_defs Let_def)
  have closed: "\<not> udp_open (m_udp_socket (fresh_device None))"
    by (simp add: example_defs collaborator_defs Let_def)
  show ?thesis
    using closed by (simp add: run)
qed

subsection \<open>The properties at concrete devices\<close>

lemma fresh_device_trace:
  "io_trace (fresh_device tcp_stats) =
     [AddInflator_call The_E133Inflator, AddInflator_call The_RDMInflator,
      RegisterNotification_call ADD RegisterEndpoint_callback,
      RegisterNotification_call REMOVE UnRegisterEndpoint_callback]"
  by (simp add: example_defs collaborator_defs Let_def)

lemma fresh_device_subscribed: "subscribed (fresh_device tcp_stats)"
  by (simp add: example_defs collaborator_defs Let_def subscribed_def)

lemma routing_device_fields:
  "m_root_endpoint routing_device = Some 4"
  "m_endpoint_map (m_endpoint_manager routing_device) = [(3, 5), (0, 9)]"
  "filter is_dispatch (io_trace routing_device) = []"
  "filter is_reply (io_trace routing_device) = []"
  "filter is_lookup (io_trace routing_device) = []"
proof -
  have one: "subscribed (EndpointManager_RegisterEndpoint 3 5 (fresh_device None))"
    by (simp add: EndpointManager_RegisterEndpoint_eq [OF fresh_device_subscribed])
       (simp add: subscribed_def example_defs collaborator_defs Let_def)
  have eq: "routing_device =
     (fresh_device None)
       \<lparr>m_endpoint_manager := (m_endpoint_manager (fresh_device None))\<lparr>m_endpoint_map := [(3, 5), (0, 9)]\<rparr>,
        m_root_endpoint := Some 4,
        m_rdm_inflator := (m_rdm_inflator (fresh_device None))
          \<lparr>m_rdm_handlers := [3 \<mapsto> EndpointRequest_callback 3, 0 \<mapsto> EndpointRequest_callback 0]\<rparr>,
        io_trace := io_trace (fresh_device None) @
          [Log OLA_INFO [Str ''Endpoint '', U16 3, Str '' has been added''],
           SetRDMHandler_call 3 (EndpointRequest_callback 3),
           Log OLA_INFO [Str ''Endpoint '', U16 0, Str '' has been added''],
           SetRDMHandler_call 0 (EndpointRequest_callback 0),
           SetRDMHandler_call 0 (EndpointRequest_callback 0)]\<rparr>"
    unfolding routing_device_def EndpointManager_RegisterEndpoint_eq [OF one]
    unfolding EndpointManager_RegisterEndpoint_eq [OF fresh_device_subscribed]
    by (simp add: SetRootEndpoint_def collaborator_defs example_defs Let_def)
  show "m_root_endpoint routing_device = Some 4"
    "m_endpoint_map (m_endpoint_manager routing_device) = [(3, 5), (0, 9)]"
    "filter is_dispatch (io_trace routing_device) = []"
    "filter is_reply (io_trace routing_device) = []"
    "filter is_lookup (io_trace routing_device) = []"
    by (simp_all add: eq fresh_device_trace is_dispatch_def is_reply_def is_lookup_def)
qed

theorem success_sends_one_udp_reply_witness:
  "filter is_reply
     (io_trace (EndpointRequestComplete True 0x0A000002 40000 7 3 RDM_COMPLETED_OK None []
                  (fresh_device None))) =
     [SendRDM_call \<lparr>Source = ''foo bar'', Sequence = 7, Endpoint = 3,
                     RxAcknowledge = False, Timeout = False\<rparr>
        (RDMPDU None) (OutgoingUDPTransport 0x0A000002 40000) True]
   \<and> filter is_reply
       (io_trace (Run_RDMCallback
                    (EndpointRequestComplete_callback (SourceIP (sample_transport_header TCP))
                       (SourcePort (sample_transport_header TCP)) (Sequence sample_e133_header) 3)
                    True RDM_COMPLETED_OK None [] (fresh_device None))) =
     [SendRDM_call \<lparr>Source = ''foo bar'', Sequence = 7, Endpoint = 3,
                     RxAcknowledge = False, Timeout = False\<rparr>
        (RDMPDU None) (OutgoingUDPTransport 0x0A000002 40000) True]"
  using success_sends_one_udp_reply
          [where s = "fresh_device None" and send_ok = True and src_ip = "0x0A000002"
             and src_port = 40000 and sequence_number = 7 and endpoint_id = 3
             and response_ptr = None and packets = "[]"
             and transport_header = "sample_transport_header TCP"
             and e133_header = sample_e133_header]
  by (simp add: fresh_device_trace is_reply_def sample_transport_header_def sample_e133_header_def)

theorem failed_completion_sends_nothing_witness:
  "RDM_WAS_BROADCAST \<noteq> RDM_COMPLETED_OK
   \<and> EndpointRequestComplete True 0x0A000002 40000 7 3 RDM_WAS_BROADCAST None [] (fresh_device None) =
       fresh_device None
   \<and> RDM_UNKNOWN_UID \<noteq> RDM_COMPLETED_OK
   \<and> io_trace (EndpointRequestComplete True 0x0A000002 40000 7 3 RDM_UNKNOWN_UID None []
                  (fresh_device None)) =
       io_trace (fresh_device None) @
         [Log OLA_WARN [Str ''E1.33 request failed with code '',
                        ResponseCodeToString RDM_UNKNOWN_UID, Str '', dropping request'']]
   \<and> filter is_reply
         (io_trace (EndpointRequestComplete True 0x0A000002 40000 7 3 RDM_UNKNOWN_UID None []
                      (fresh_device None))) = []"
proof -
  have broadcast: "RDM_WAS_BROADCAST \<noteq> RDM_COMPLETED_OK" and unknown: "RDM_UNKNOWN_UID \<noteq> RDM_COMPLETED_OK"
    by simp_all
  show ?thesis
    using failed_completion_sends_nothing [OF broadcast, of True "0x0A000002" 40000 7 3 None "[]" "fresh_device None"]
      failed_completion_sends_nothing [OF unknown, of True "0x0A000002" 40000 7 3 None "[]" "fresh_device None"]
    by (simp add: fresh_device_trace is_reply_def)
qed

theorem heartbeat_only_for_tcp_traffic_witness:
  "count_list (io_trace (E133DataReceived (sample_transport_header TCP) (connected_device None)))
      HealthCheckedConnection_HeartbeatReceived_call = 1
   \<and> count_list (io_trace (E133DataReceived (sample_transport_header UDP) (connected_device None)))
      HealthCheckedConnection_HeartbeatReceived_call = 0
   \<and> count_list (io_trace (E133DataReceived (sample_transport_header TCP) (fresh_device None)))
      HealthCheckedConnection_HeartbeatReceived_call = 0"
proof -
  have quiet: "count_list (io_trace (connected_device None)) HealthCheckedConnection_HeartbeatReceived_call = 0"
    "count_list (io_trace (fresh_device None)) HealthCheckedConnection_HeartbeatReceived_call = 0"
    by (simp_all add: connected_device_eq fresh_device_trace)
  have active: "m_health_checked_connection (connected_device None) \<noteq> None"
    "m_health_checked_connection (fresh_device None) = None"
    by (simp add: connected_device_eq) (simp add: example_defs collaborator_defs Let_def)
  show ?thesis
    using heartbeat_only_for_tcp_traffic [of "sample_transport_header TCP" "connected_device None", THEN conjunct2]
      heartbeat_only_for_tcp_traffic [of "sample_transport_header UDP" "connected_device None", THEN conjunct2]
      heartbeat_only_for_tcp_traffic [of "sample_transport_header TCP" "fresh_device None", THEN conjunct2]
    by (simp add: quiet active sample_transport_header_def)
qed

theorem unparsable_request_is_dropped_witness:
  "map_of (m_endpoint_map (m_endpoint_manager routing_device)) 3 = Some 5
   \<and> sample_inflate [] = None
   \<and> io_trace (EndpointRequest sample_inflate 3 (sample_transport_header TCP) sample_e133_header []
                  routing_device) =
       io_trace routing_device @
         [Log OLA_INFO [Str ''Got request for to endpoint '', U16 3, Str '' from '', Addr 0x0A000002],
          GetEndpoint_call 3,
          Log OLA_WARN [Str ''Failed to unpack E1.33 RDM message, ignoring request.'']]
   \<and> filter is_dispatch
         (io_trace (EndpointRequest sample_inflate 3 (sample_transport_header TCP) sample_e133_header []
                      routing_device)) = []
   \<and> filter is_reply
         (io_trace (EndpointRequest sample_inflate 3 (sample_transport_header TCP) sample_e133_header []
                      routing_device)) = []"
proof -
  have found: "(if (3 :: uint16_t) \<noteq> 0
                then map_of (m_endpoint_map (m_endpoint_manager routing_device)) 3
                else m_root_endpoint routing_device) = Some 5"
    by (simp add: routing_device_fields)
  have bad: "sample_inflate [] = None"
    by (simp add: sample_inflate_def)
  show ?thesis
    using unparsable_request_is_dropped
            [where InflateFromData = sample_inflate and raw_request = "[]" and endpoint_id = 3
               and s = routing_device and e = 5 and transport_header = "sample_transport_header TCP"
               and e133_header = sample_e133_header, OF found bad]
    by (simp add: routing_device_fields bad sample_transport_header_def is_dispatch_def is_reply_def)
qed

theorem endpoint_zero_is_the_root_endpoint_witness:
  "m_root_endpoint routing_device = Some 4
   \<and> map_of (m_endpoint_map (m_endpoint_manager routing_device)) 0 = Some 9
   \<and> filter is_lookup
         (io_trace (EndpointRequest sample_inflate 0 (sample_transport_header UDP) sample_e133_header
                      ''x'' routing_device)) = []
   \<and> filter is_dispatch
         (io_trace (EndpointRequest sample_inflate 0 (sample_transport_header UDP) sample_e133_header
                      ''x'' routing_device)) =
       [SendRDMRequest_call 4 (RDMRequest [120])
          (EndpointRequestComplete_callback 0x0A000002 40000 7 0)]
   \<and> map_of (m_endpoint_map (m_endpoint_manager routing_device)) 7 = None
   \<and> io_trace (EndpointRequest sample_inflate 7 (sample_transport_header UDP) sample_e133_header
                  ''x'' routing_device) =
       io_trace routing_device @
         [Log OLA_INFO [Str ''Got request for to endpoint '', U16 7, Str '' from '', Addr 0x0A000002],
          GetEndpoint_call 7,
          Log OLA_INFO [Str ''Request to endpoint '', U16 7,
                        Str '' but no Endpoint has been registered, this is a bug!'']]
   \<and> filter is_dispatch
         (io_trace (EndpointRequest sample_inflate 3 (sample_transport_header UDP) sample_e133_header
                      ''x'' routing_device)) =
       [SendRDMRequest_call 5 (RDMRequest [120])
          (EndpointRequestComplete_callback 0x0A000002 40000 7 3)]"
proof -
  have parsed: "sample_inflate ''x'' = Some (RDMRequest [120])"
    by (simp add: sample_inflate_def)
  note routed = endpoint_zero_is_the_root_endpoint
      [where s = routing_device and InflateFromData = sample_inflate and raw_request = "''x''"
         and transport_header = "sample_transport_header UDP" and e133_header = sample_e133_header
         and request = "RDMRequest [120]" and root = 4]
  have zero: "filter is_lookup
         (io_trace (EndpointRequest sample_inflate 0 (sample_transport_header UDP) sample_e133_header
                      ''x'' routing_device)) = []"
    using routed [where endpoint_id = 7 and e = 5, THEN conjunct2, THEN conjunct1]
    by (simp add: routing_device_fields)
  have root: "filter is_dispatch
         (io_trace (EndpointRequest sample_inflate 0 (sample_transport_header UDP) sample_e133_header
                      ''x'' routing_device)) =
       [SendRDMRequest_call 4 (RDMRequest [120])
          (EndpointRequestComplete_callback 0x0A000002 40000 7 0)]"
    using routed [where endpoint_id = 7 and e = 5, THEN conjunct2, THEN conjunct2, THEN conjunct1]
    by (simp add: routing_device_fields parsed is_dispatch_def sample_transport_header_def
          sample_e133_header_def)
  have absent: "io_trace (EndpointRequest sample_inflate 7 (sample_transport_header UDP)
                            sample_e133_header ''x'' routing_device) =
       io_trace routing_device @
         [Log OLA_INFO [Str ''Got request for to endpoint '', U16 7, Str '' from '', Addr 0x0A000002],
          GetEndpoint_call 7,
          Log OLA_INFO [Str ''Request to endpoint '', U16 7,
                        Str '' but no Endpoint has been registered, this is a bug!'']]"
    using routed [where endpoint_id = 7 and e = 5]
    by (simp add: routing_device_fields sample_transport_header_def)
  have present: "filter is_dispatch
         (io_trace (EndpointRequest sample_inflate 3 (sample_transport_header UDP) sample_e133_header
                      ''x'' routing_device)) =
       [SendRDMRequest_call 5 (RDMRequest [120])
          (EndpointRequestComplete_callback 0x0A000002 40000 7 3)]"
    using routed [where endpoint_id = 3 and e = 5]
    by (simp add: routing_device_fields parsed is_dispatch_def sample_transport_header_def
          sample_e133_header_def)
  show ?thesis
    using zero root absent present by (simp add: routing_device_fields)
qed

theorem handlers_follow_the_registry_witness:
  "registered_ids
     (registry_calls [Register 3 5, Register 7 6, UnRegister 3, UnRegister 9]
        (E133Device_new \<lparr>read_descriptors = {}\<rparr> 0x0A000001 empty_registry None [])) = {7}
   \<and> handler_ids
     (registry_calls [Register 3 5, Register 7 6, UnRegister 3, UnRegister 9]
        (E133Device_new \<lparr>read_descriptors = {}\<rparr> 0x0A000001 empty_registry None [])) = {7}"
proof -
  let ?new = "E133Device_new \<lparr>read_descriptors = {}\<rparr> 0x0A000001 empty_registry None []"
  have start: "subscribed ?new" "m_endpoint_map (m_endpoint_manager ?new) = []"
    by (simp_all add: E133Device_new_def empty_registry_def collaborator_defs Let_def subscribed_def)
  have one: "subscribed (EndpointManager_RegisterEndpoint 3 5 ?new)"
    "m_endpoint_map (m_endpoint_manager (EndpointManager_RegisterEndpoint 3 5 ?new)) = [(3, 5)]"
    using start by (simp_all add: EndpointManager_RegisterEndpoint_eq subscribed_def)
  have two: "subscribed (EndpointManager_RegisterEndpoint 7 6 (EndpointManager_RegisterEndpoint 3 5 ?new))"
    "m_endpoint_map (m_endpoint_manager
        (EndpointManager_RegisterEndpoint 7 6 (EndpointManager_RegisterEndpoint 3 5 ?new))) =
       [(3, 5), (7, 6)]"
    using one by (simp_all add: EndpointManager_RegisterEndpoint_eq subscribed_def)
  have three: "subscribed (EndpointManager_UnRegisterEndpoint 3
        (EndpointManager_RegisterEndpoint 7 6 (EndpointManager_RegisterEndpoint 3 5 ?new)))"
    "m_endpoint_map (m_endpoint_manager (EndpointManager_UnRegisterEndpoint 3
        (EndpointManager_RegisterEndpoint 7 6 (EndpointManager_RegisterEndpoint 3 5 ?new)))) =
       [(7, 6)]"
    using two by (simp_all add: EndpointManager_UnRegisterEndpoint_eq subscribed_def)
  have four: "m_endpoint_map (m_endpoint_manager (EndpointManager_UnRegisterEndpoint 9
        (EndpointManager_UnRegisterEndpoint 3
        (EndpointManager_RegisterEndpoint 7 6 (EndpointManager_RegisterEndpoint 3 5 ?new))))) =
       [(7, 6)]"
    using three by (simp add: EndpointManager_UnRegisterEndpoint_eq)
  have registered: "registered_ids
     (registry_calls [Register 3 5, Register 7 6, UnRegister 3, UnRegister 9] ?new) = {7}"
    using four by (simp add: registered_ids_def EndpointIDs_def)
  show ?thesis
    using handlers_follow_the_registry
            [of "[Register 3 5, Register 7 6, UnRegister 3, UnRegister 9]"
               "\<lparr>read_descriptors = {}\<rparr>" "0x0A000001" None "[]", THEN conjunct1]
      registered
    by simp
qed

end
